theory Spec2Isabelle
  imports Complex_Main "HOL-Library.Sublist"
begin

section \<open>JavaScript values\<close>

text \<open>
  Both source files (the routing middleware and the KPI hook) work on values produced by
  \<^verbatim>\<open>JSON.parse\<close> or delivered by the query client. A Number is \<open>NaN\<close>, an infinity, or
  a finite value \<open>Fin r\<close>, given by its exact rational value \<open>r\<close>; \<open>+0\<close> and \<open>-0\<close> are
  both \<open>Fin 0\<close>. A string is a sequence of characters with codes below 256.
\<close>

datatype jsnum = NaN | PosInf | NegInf | Fin rat

datatype jsv =
    JUndefined
  | JNull
  | JBool bool
  | JNum jsnum
  | JStr string
  | JArr "jsv list"
  | JObj "(string \<times> jsv) list"

text \<open>What a \<^verbatim>\<open>throw\<close> carries: an \<^verbatim>\<open>Error\<close> with its message, or some other value.\<close>

datatype thrown = ErrorObj string | OtherValue

definition bindE :: "thrown + 'a \<Rightarrow> ('a \<Rightarrow> thrown + 'b) \<Rightarrow> thrown + 'b" where
  "bindE m f = (case m of Inl e \<Rightarrow> Inl e | Inr x \<Rightarrow> f x)"

definition try_catch :: "thrown + 'a \<Rightarrow> (thrown \<Rightarrow> thrown + 'a) \<Rightarrow> thrown + 'a" where
  "try_catch body handler = (case body of Inl e \<Rightarrow> handler e | Inr x \<Rightarrow> Inr x)"

text \<open>
  The platform functions the code calls and this repository does not define:
  \<^verbatim>\<open>atob\<close> and \<^verbatim>\<open>JSON.parse\<close> (\<open>None\<close> when they throw), \<^verbatim>\<open>Date.parse\<close>
  (milliseconds since the epoch, \<open>None\<close> for \<open>NaN\<close>), the string conversion of numbers
  and objects, and the value check of \<^verbatim>\<open>Headers.set\<close> (\<open>None\<close> when it throws a
  \<^verbatim>\<open>TypeError\<close>, otherwise the stored value).
\<close>

record platform =
  atob :: "string \<Rightarrow> string option"
  JSON_parse :: "string \<Rightarrow> jsv option"
  Date_parse :: "string \<Rightarrow> int option"
  ToString :: "jsv \<Rightarrow> string"
  header_value :: "string \<Rightarrow> string option"

fun truthy :: "jsv \<Rightarrow> bool" where
  "truthy JUndefined = False"
| "truthy JNull = False"
| "truthy (JBool b) = b"
| "truthy (JNum NaN) = False"
| "truthy (JNum (Fin r)) = (r \<noteq> 0)"
| "truthy (JNum _) = True"
| "truthy (JStr s) = (s \<noteq> [])"
| "truthy (JArr _) = True"
| "truthy (JObj _) = True"

text \<open>
  Reading a data property \<^verbatim>\<open>v.k\<close>. The names read by the code (\<^verbatim>\<open>expires_at\<close>,
  \<^verbatim>\<open>company_id\<close>, \<^verbatim>\<open>access_token\<close>, \<^verbatim>\<open>is_valid\<close>) are own properties of parsed
  objects only; on \<^verbatim>\<open>null\<close> and \<^verbatim>\<open>undefined\<close> the read throws a \<^verbatim>\<open>TypeError\<close>.
\<close>

fun field :: "jsv \<Rightarrow> string \<Rightarrow> jsv" where
  "field (JObj kvs) k = (case map_of kvs k of Some v \<Rightarrow> v | None \<Rightarrow> JUndefined)"
| "field _ k = JUndefined"

fun nullish :: "jsv \<Rightarrow> bool" where
  "nullish JUndefined = True"
| "nullish JNull = True"
| "nullish _ = False"

definition get_prop :: "jsv \<Rightarrow> string \<Rightarrow> thrown + jsv" where
  "get_prop v k = (if nullish v then Inl (ErrorObj ''TypeError'') else Inr (field v k))"

fun toString :: "platform \<Rightarrow> jsv \<Rightarrow> string" where
  "toString plat JUndefined = ''undefined''"
| "toString plat JNull = ''null''"
| "toString plat (JBool b) = (if b then ''true'' else ''false'')"
| "toString plat (JStr s) = s"
| "toString plat v = ToString plat v"

subsection \<open>Dates\<close>

text \<open>
  A \<^verbatim>\<open>Date\<close> is its time value: \<open>Some t\<close> (milliseconds since the epoch) or \<open>None\<close> for
  an invalid date. \<open>newDate\<close> is \<^verbatim>\<open>new Date(v)\<close>: a string is parsed, any other
  primitive goes through \<^verbatim>\<open>ToNumber\<close> and \<^verbatim>\<open>TimeClip\<close>, an array or object is turned
  into a string first.
\<close>

definition timeClip :: "jsnum \<Rightarrow> int option" where
  "timeClip n = (case n of
       Fin r \<Rightarrow> (if \<bar>r\<bar> > 8640000000000000 then None
                 else Some (if r < 0 then - \<lfloor>- r\<rfloor> else \<lfloor>r\<rfloor>))
     | _ \<Rightarrow> None)"

fun newDate :: "platform \<Rightarrow> jsv \<Rightarrow> int option" where
  "newDate plat JUndefined = None"
| "newDate plat JNull = Some 0"
| "newDate plat (JBool b) = Some (if b then 1 else 0)"
| "newDate plat (JNum n) = timeClip n"
| "newDate plat (JStr s) = Date_parse plat s"
| "newDate plat v = Date_parse plat (toString plat v)"

text \<open>\<^verbatim>\<open>new Date(e) < new Date()\<close>: a comparison with an invalid date is false.\<close>

definition expired :: "platform \<Rightarrow> int \<Rightarrow> jsv \<Rightarrow> bool" where
  "expired plat now e = (case newDate plat e of None \<Rightarrow> False | Some t \<Rightarrow> t < now)"

section \<open>The routing middleware\<close>

record request =
  path :: string
  cookies :: "(string \<times> string) list"

text \<open>
  A response is \<^verbatim>\<open>NextResponse.next\<close> with the request headers it sets (none for a plain
  \<^verbatim>\<open>next()\<close>), or a redirect to a path of the request's origin with the cookies it sets
  (name, value, max-age).
\<close>

datatype response =
    Next "(string \<times> string) list"
  | Redirect string "(string \<times> string \<times> int) list"

definition startsWith :: "string \<Rightarrow> string \<Rightarrow> bool" where
  "startsWith s p = prefix p s"

definition publicPaths :: "string list" where
  "publicPaths = [''/'', ''/login'', ''/demo'', ''/api/demo'', ''/favicon.ico'', ''/_next'',
     ''/api/health'']"

definition adminPaths :: "string list" where
  "adminPaths = [''/admin'']"

definition protectedPaths :: "string list" where
  "protectedPaths = [''/dashboard'', ''/import'', ''/employees'', ''/settings'', ''/api/import'']"

definition isPublicPath :: "string \<Rightarrow> bool" where
  "isPublicPath p = list_ex (\<lambda>publicPath. p = publicPath \<or> startsWith p publicPath) publicPaths"

definition isAdminPath :: "string \<Rightarrow> bool" where
  "isAdminPath p = list_ex (\<lambda>adminPath. startsWith p adminPath) adminPaths"

definition isProtectedPath :: "string \<Rightarrow> bool" where
  "isProtectedPath p = list_ex (\<lambda>protectedPath. startsWith p protectedPath) protectedPaths"

definition cookies_get :: "request \<Rightarrow> string \<Rightarrow> string option" where
  "cookies_get req name = map_of (cookies req) name"

text \<open>\<^verbatim>\<open>JSON.parse(atob(value))\<close>: either call may throw.\<close>

definition decode_session :: "platform \<Rightarrow> string \<Rightarrow> thrown + jsv" where
  "decode_session plat v =
     (case atob plat v of
        None \<Rightarrow> Inl (ErrorObj ''InvalidCharacterError'')
      | Some s \<Rightarrow> (case JSON_parse plat s of
                     None \<Rightarrow> Inl (ErrorObj ''SyntaxError'')
                   | Some j \<Rightarrow> Inr j))"

text \<open>
  The admin branch. The body of its \<^verbatim>\<open>try\<close> returns a redirect when the session has
  expired and falls through (\<open>None\<close>) otherwise; the \<^verbatim>\<open>catch\<close> redirects without
  touching the cookie.
\<close>

definition admin_try :: "platform \<Rightarrow> int \<Rightarrow> string \<Rightarrow> thrown + response option" where
  "admin_try plat now v =
     bindE (decode_session plat v) (\<lambda>sessionData.
     bindE (get_prop sessionData ''expires_at'') (\<lambda>e.
       if expired plat now e
       then Inr (Some (Redirect ''/admin/login'' [(''admin_session'', [], 0)]))
       else Inr None))"

definition admin_gate :: "platform \<Rightarrow> int \<Rightarrow> string option \<Rightarrow> thrown + response" where
  "admin_gate plat now adminSession =
     (case adminSession of
        None \<Rightarrow> Inr (Redirect ''/admin/login'' [])
      | Some v \<Rightarrow>
          bindE (try_catch (admin_try plat now v) (\<lambda>_. Inr (Some (Redirect ''/admin/login'' []))))
            (\<lambda>r. case r of Some resp \<Rightarrow> Inr resp | None \<Rightarrow> Inr (Next [])))"

text \<open>
  The protected branch: expiry, then the two required fields, then the two identity
  headers. \<^verbatim>\<open>Headers.set\<close> converts its value to a string and may reject it.
\<close>

definition headers_set :: "platform \<Rightarrow> string \<Rightarrow> jsv \<Rightarrow> thrown + (string \<times> string)" where
  "headers_set plat name v =
     (case header_value plat (toString plat v) of
        None \<Rightarrow> Inl (ErrorObj ''TypeError'')
      | Some s \<Rightarrow> Inr (name, s))"

definition company_try :: "platform \<Rightarrow> int \<Rightarrow> string \<Rightarrow> thrown + response" where
  "company_try plat now v =
     bindE (decode_session plat v) (\<lambda>sessionData.
     bindE (get_prop sessionData ''expires_at'') (\<lambda>e.
       if expired plat now e
       then Inr (Redirect ''/login'' [(''company_session'', [], 0)])
       else if (if \<not> truthy (field sessionData ''company_id'') then True
                else \<not> truthy (field sessionData ''access_token''))
       then Inr (Redirect ''/login'' [(''company_session'', [], 0)])
       else
         bindE (headers_set plat ''x-company-id'' (field sessionData ''company_id'')) (\<lambda>h1.
         bindE (headers_set plat ''x-access-token'' (field sessionData ''access_token'')) (\<lambda>h2.
           Inr (Next [h1, h2])))))"

definition company_gate :: "platform \<Rightarrow> int \<Rightarrow> string option \<Rightarrow> thrown + response" where
  "company_gate plat now companySession =
     (case companySession of
        None \<Rightarrow> Inr (Redirect ''/login'' [])
      | Some v \<Rightarrow>
          try_catch (company_try plat now v)
            (\<lambda>error. Inr (Redirect ''/login'' [(''company_session'', [], 0)])))"

definition middleware :: "platform \<Rightarrow> int \<Rightarrow> request \<Rightarrow> thrown + response" where
  "middleware plat now req =
     (if isPublicPath (path req) then Inr (Next [])
      else if isAdminPath (path req) \<and> path req \<noteq> ''/admin/login''
      then admin_gate plat now (cookies_get req ''admin_session'')
      else if isProtectedPath (path req)
      then company_gate plat now (cookies_get req ''company_session'')
      else Inr (Next []))"

section \<open>The KPI hook\<close>

subsection \<open>Number coercion\<close>

text \<open>
  \<^verbatim>\<open>Number(s)\<close> on a string: white space is trimmed, the empty string is \<open>0\<close>, then a
  hexadecimal, octal or binary literal (unsigned) or a signed decimal literal with optional
  fraction and exponent, or \<^verbatim>\<open>Infinity\<close>; anything else is \<open>NaN\<close>. The result is the
  exact value of the literal: the rounding to the nearest double that JavaScript applies to
  a literal which is not itself a double is left out. White space is the white space with
  a code below 256.
\<close>

definition is_ws :: "char \<Rightarrow> bool" where
  "is_ws c = (c \<in> set [CHR '' '', CHR 0x09, CHR 0x0A, CHR 0x0B, CHR 0x0C, CHR 0x0D, CHR 0xA0])"

definition trim :: "string \<Rightarrow> string" where
  "trim s = rev (dropWhile is_ws (rev (dropWhile is_ws s)))"

definition digit_of :: "char \<Rightarrow> nat option" where
  "digit_of = map_of
     [(CHR ''0'', 0), (CHR ''1'', 1), (CHR ''2'', 2), (CHR ''3'', 3), (CHR ''4'', 4),
      (CHR ''5'', 5), (CHR ''6'', 6), (CHR ''7'', 7), (CHR ''8'', 8), (CHR ''9'', 9),
      (CHR ''a'', 10), (CHR ''b'', 11), (CHR ''c'', 12), (CHR ''d'', 13), (CHR ''e'', 14),
      (CHR ''f'', 15), (CHR ''A'', 10), (CHR ''B'', 11), (CHR ''C'', 12), (CHR ''D'', 13),
      (CHR ''E'', 14), (CHR ''F'', 15)]"

definition is_digit :: "nat \<Rightarrow> char \<Rightarrow> bool" where
  "is_digit b c = (case digit_of c of Some d \<Rightarrow> d < b | None \<Rightarrow> False)"

definition digits_value :: "nat \<Rightarrow> string \<Rightarrow> nat" where
  "digits_value b ds = foldl (\<lambda>a c. b * a + the (digit_of c)) 0 ds"

text \<open>A non-empty run of digits of base \<open>b\<close>, and nothing else.\<close>

definition radix_literal :: "nat \<Rightarrow> string \<Rightarrow> nat option" where
  "radix_literal b ds =
     (if ds \<noteq> [] \<and> list_all (is_digit b) ds then Some (digits_value b ds) else None)"

fun radix_prefix :: "string \<Rightarrow> (nat \<times> string) option" where
  "radix_prefix (z # x # ds) =
     (if z \<noteq> CHR ''0'' then None
      else if x = CHR ''x'' \<or> x = CHR ''X'' then Some (16, ds)
      else if x = CHR ''o'' \<or> x = CHR ''O'' then Some (8, ds)
      else if x = CHR ''b'' \<or> x = CHR ''B'' then Some (2, ds)
      else None)"
| "radix_prefix _ = None"

fun exponent_part :: "string \<Rightarrow> int option" where
  "exponent_part [] = Some 0"
| "exponent_part (e # t) =
     (if e = CHR ''e'' \<or> e = CHR ''E'' then
        (case t of
           s # ds \<Rightarrow>
             (if s = CHR ''+'' then map_option int (radix_literal 10 ds)
              else if s = CHR ''-'' then map_option (\<lambda>n. - int n) (radix_literal 10 ds)
              else map_option int (radix_literal 10 t))
         | [] \<Rightarrow> None)
      else None)"

definition pow10 :: "int \<Rightarrow> rat" where
  "pow10 e = (if 0 \<le> e then 10 ^ nat e else 1 / 10 ^ nat (- e))"

definition unsigned_decimal :: "string \<Rightarrow> rat option" where
  "unsigned_decimal r =
     (let ip = takeWhile (is_digit 10) r;
          r1 = dropWhile (is_digit 10) r;
          fp = (case r1 of c # t \<Rightarrow> if c = CHR ''.'' then takeWhile (is_digit 10) t else []
                | [] \<Rightarrow> []);
          r2 = (case r1 of c # t \<Rightarrow> if c = CHR ''.'' then dropWhile (is_digit 10) t else r1
                | [] \<Rightarrow> [])
      in if ip = [] \<and> fp = [] then None
         else map_option
                (\<lambda>e. (of_nat (digits_value 10 ip)
                        + of_nat (digits_value 10 fp) / 10 ^ length fp) * pow10 e)
                (exponent_part r2))"

definition signed_decimal :: "string \<Rightarrow> jsnum" where
  "signed_decimal s =
     (let neg = (case s of c # _ \<Rightarrow> c = CHR ''-'' | [] \<Rightarrow> False);
          r = (case s of c # t \<Rightarrow> if c = CHR ''+'' \<or> c = CHR ''-'' then t else s | [] \<Rightarrow> s)
      in if r = ''Infinity'' then (if neg then NegInf else PosInf)
         else (case unsigned_decimal r of
                 None \<Rightarrow> NaN
               | Some q \<Rightarrow> Fin (if neg then - q else q)))"

definition StringToNumber :: "string \<Rightarrow> jsnum" where
  "StringToNumber str =
     (let s = trim str
      in if s = [] then Fin 0
         else (case radix_prefix s of
                 Some (b, ds) \<Rightarrow>
                   (case radix_literal b ds of Some n \<Rightarrow> Fin (of_nat n) | None \<Rightarrow> NaN)
               | None \<Rightarrow> signed_decimal s))"

text \<open>\<^verbatim>\<open>Number(v)\<close>, and the source's \<^verbatim>\<open>Number(v) || 0\<close>.\<close>

fun Number :: "platform \<Rightarrow> jsv \<Rightarrow> jsnum" where
  "Number plat JUndefined = NaN"
| "Number plat JNull = Fin 0"
| "Number plat (JBool b) = Fin (if b then 1 else 0)"
| "Number plat (JNum n) = n"
| "Number plat (JStr s) = StringToNumber s"
| "Number plat v = StringToNumber (toString plat v)"

definition number_or_zero :: "platform \<Rightarrow> jsv \<Rightarrow> jsnum" where
  "number_or_zero plat v = (let n = Number plat v in if truthy (JNum n) then n else Fin 0)"

subsection \<open>Rows and KPI records\<close>

record workforce_row =
  effectif_fin_mois :: jsv
  etp_fin_mois :: jsv
  nb_entrees :: jsv
  nb_sorties :: jsv
  taux_turnover :: jsv
  pct_cdi :: jsv
  age_moyen :: jsv
  anciennete_moyenne_mois :: jsv
  pct_hommes :: jsv
  pct_femmes :: jsv

record financial_row =
  masse_salariale_brute :: jsv
  cout_total_employeur :: jsv
  salaire_base_moyen :: jsv
  cout_moyen_par_fte :: jsv
  part_variable :: jsv
  taux_charges :: jsv

record absence_row =
  taux_absenteisme :: jsv
  nb_jours_absence :: jsv
  nb_absences_total :: jsv
  duree_moyenne_absence :: jsv
  nb_salaries_absents :: jsv
  nb_jours_maladie :: jsv

record WorkforceKPIs =
  etpTotal :: jsnum
  headcountActif :: jsnum
  nbEntrees :: jsnum
  nbSorties :: jsnum
  tauxTurnover :: jsnum
  pctCDI :: jsnum
  ageMoyen :: jsnum
  ancienneteMoyenne :: jsnum
  pctHommes :: jsnum
  pctFemmes :: jsnum

record PayrollKPIs =
  masseBrute :: jsnum
  coutTotal :: jsnum
  salaireMoyen :: jsnum
  coutMoyenFTE :: jsnum
  partVariable :: jsnum
  tauxCharges :: jsnum

record AbsenceKPIs =
  tauxAbsenteisme :: jsnum
  nbJoursAbsence :: jsnum
  nbAbsencesTotal :: jsnum
  dureeMoyenne :: jsnum
  nbSalariesAbsents :: jsnum
  nbJoursMaladie :: jsnum

record OptimizedKPIData =
  workforce :: "WorkforceKPIs option"
  financials :: "PayrollKPIs option"
  absences :: "AbsenceKPIs option"

text \<open>
  What a query resolves to: \<^verbatim>\<open>data\<close> (the row, or \<^verbatim>\<open>null\<close>) and \<^verbatim>\<open>error\<close> (\<^verbatim>\<open>null\<close>,
  or an error object, kept as its message).
\<close>

datatype 'r query_result = QueryResult (res_data: "'r option") (res_error: "string option")

definition transform_workforce :: "platform \<Rightarrow> workforce_row \<Rightarrow> WorkforceKPIs" where
  "transform_workforce plat d =
     \<lparr> etpTotal = number_or_zero plat (etp_fin_mois d),
       headcountActif = number_or_zero plat (effectif_fin_mois d),
       nbEntrees = number_or_zero plat (nb_entrees d),
       nbSorties = number_or_zero plat (nb_sorties d),
       tauxTurnover = number_or_zero plat (taux_turnover d),
       pctCDI = number_or_zero plat (pct_cdi d),
       ageMoyen = number_or_zero plat (age_moyen d),
       ancienneteMoyenne = number_or_zero plat (anciennete_moyenne_mois d),
       pctHommes = number_or_zero plat (pct_hommes d),
       pctFemmes = number_or_zero plat (pct_femmes d) \<rparr>"

definition transform_financials :: "platform \<Rightarrow> financial_row \<Rightarrow> PayrollKPIs" where
  "transform_financials plat d =
     \<lparr> masseBrute = number_or_zero plat (masse_salariale_brute d),
       coutTotal = number_or_zero plat (cout_total_employeur d),
       salaireMoyen = number_or_zero plat (salaire_base_moyen d),
       coutMoyenFTE = number_or_zero plat (cout_moyen_par_fte d),
       partVariable = number_or_zero plat (part_variable d),
       tauxCharges = number_or_zero plat (taux_charges d) \<rparr>"

definition transform_absences :: "platform \<Rightarrow> absence_row \<Rightarrow> AbsenceKPIs" where
  "transform_absences plat d =
     \<lparr> tauxAbsenteisme = number_or_zero plat (taux_absenteisme d),
       nbJoursAbsence = number_or_zero plat (nb_jours_absence d),
       nbAbsencesTotal = number_or_zero plat (nb_absences_total d),
       dureeMoyenne = number_or_zero plat (duree_moyenne_absence d),
       nbSalariesAbsents = number_or_zero plat (nb_salaries_absents d),
       nbJoursMaladie = number_or_zero plat (nb_jours_maladie d) \<rparr>"

definition transformedData ::
  "platform \<Rightarrow> workforce_row query_result \<Rightarrow> financial_row query_result \<Rightarrow>
     absence_row query_result \<Rightarrow> OptimizedKPIData" where
  "transformedData plat workforceRes financialRes absenceRes =
     \<lparr> workforce = map_option (transform_workforce plat) (res_data workforceRes),
       financials = map_option (transform_financials plat) (res_data financialRes),
       absences = map_option (transform_absences plat) (res_data absenceRes) \<rparr>"

subsection \<open>Hook state, browser state and the query client\<close>

text \<open>
  An awaited promise is fulfilled with a value, rejected with what was thrown, or never
  settles; in the last case the \<^verbatim>\<open>async\<close> function never resumes and the state stays as
  it was at the \<^verbatim>\<open>await\<close>.
\<close>

datatype 'a promise = Fulfilled 'a | Rejected thrown | Pending

datatype call =
    RpcValidate jsv
  | ReadWorkforce string string
  | ReadFinancials string string
  | ReadAbsences string string
  | UpdateActivity jsv

text \<open>
  The query client, one field for each \<^verbatim>\<open>await\<close> of the hook: the \<^verbatim>\<open>data\<close> of the
  \<^verbatim>\<open>validate_access_token\<close> call for a token, the outcome of \<^verbatim>\<open>Promise.all\<close> over the
  three snapshot reads for an establishment and a period, and the outcome of the
  \<^verbatim>\<open>last_activity_at\<close> update for a company id (\<open>Some m\<close>: the update reported an error
  with message \<open>m\<close>).
\<close>

record backend =
  rpc_validate :: "jsv \<Rightarrow> jsv promise"
  read_snapshots :: "string \<Rightarrow> string \<Rightarrow>
     (workforce_row query_result \<times> financial_row query_result \<times> absence_row query_result) promise"
  update_activity :: "jsv \<Rightarrow> string option promise"

text \<open>
  The three \<^verbatim>\<open>useState\<close> cells of the hook, the browser state it touches
  (\<^verbatim>\<open>localStorage\<close>, the strings assigned to \<^verbatim>\<open>document.cookie\<close>, the last value assigned
  to \<^verbatim>\<open>window.location.href\<close>) and the calls issued to the query client, in order.
\<close>

record world =
  data :: "OptimizedKPIData option"
  loading :: bool
  error :: "string option"
  localStorage :: "(string \<times> string) list"
  cookie_writes :: "string list"
  location_href :: "string option"
  calls :: "call list"

definition getItem :: "world \<Rightarrow> string \<Rightarrow> string option" where
  "getItem w k = map_of (localStorage w) k"

definition removeItem :: "string \<Rightarrow> world \<Rightarrow> world" where
  "removeItem k w = w\<lparr>localStorage := filter (\<lambda>kv. fst kv \<noteq> k) (localStorage w)\<rparr>"

definition document_cookie_assign :: "string \<Rightarrow> world \<Rightarrow> world" where
  "document_cookie_assign s w = w\<lparr>cookie_writes := cookie_writes w @ [s]\<rparr>"

definition issue :: "call list \<Rightarrow> world \<Rightarrow> world" where
  "issue cs w = w\<lparr>calls := calls w @ cs\<rparr>"

definition isValid :: "world \<Rightarrow> bool" where
  "isValid w = (data w \<noteq> None)"

text \<open>The state of a freshly mounted hook over a given \<^verbatim>\<open>localStorage\<close>.\<close>

definition mounted :: "(string \<times> string) list \<Rightarrow> world" where
  "mounted store =
     \<lparr> data = None, loading = True, error = None, localStorage = store,
       cookie_writes = [], location_href = None, calls = [] \<rparr>"

subsection \<open>validateSession\<close>

text \<open>\<^verbatim>\<open>v?.[0]\<close>, \<^verbatim>\<open>v?.is_valid\<close> and \<^verbatim>\<open>v || false\<close>.\<close>

fun index0 :: "jsv \<Rightarrow> jsv" where
  "index0 (JArr (x # xs)) = x"
| "index0 (JStr (c # cs)) = JStr [c]"
| "index0 (JObj kvs) = field (JObj kvs) ''0''"
| "index0 _ = JUndefined"

definition opt_index0 :: "jsv \<Rightarrow> jsv" where
  "opt_index0 v = (if nullish v then JUndefined else index0 v)"

definition opt_field :: "jsv \<Rightarrow> string \<Rightarrow> jsv" where
  "opt_field v k = (if nullish v then JUndefined else field v k)"

definition or_false :: "jsv \<Rightarrow> jsv" where
  "or_false v = (if truthy v then v else JBool False)"

text \<open>
  The result is the value the promise resolves to (\<open>None\<close> when the validation call never
  settles) and the state left behind. Every throw inside the \<^verbatim>\<open>try\<close> ends in
  \<^verbatim>\<open>return false\<close>.
\<close>

definition validateSession :: "platform \<Rightarrow> backend \<Rightarrow> int \<Rightarrow> world \<Rightarrow> jsv option \<times> world" where
  "validateSession plat bk now w =
     (case getItem w ''company_session'' of
        None \<Rightarrow> (Some (JBool False), w)
      | Some sessionStr \<Rightarrow>
          if sessionStr = [] then (Some (JBool False), w)
          else (case JSON_parse plat sessionStr of
             None \<Rightarrow> (Some (JBool False), w)
           | Some session \<Rightarrow>
               (case get_prop session ''expires_at'' of
                  Inl _ \<Rightarrow> (Some (JBool False), w)
                | Inr e \<Rightarrow>
                    if expired plat now e
                    then (Some (JBool False),
                          document_cookie_assign ''company_session=; path=/; max-age=0''
                            (removeItem ''company_session'' w))
                    else
                      (let p_token = field session ''access_token'';
                           w' = issue [RpcValidate p_token] w
                       in case rpc_validate bk p_token of
                            Pending \<Rightarrow> (None, w')
                          | Rejected _ \<Rightarrow> (Some (JBool False), w')
                          | Fulfilled validationResult \<Rightarrow>
                              (Some (or_false (opt_field (opt_index0 validationResult) ''is_valid'')),
                               w')))))"

subsection \<open>fetchOptimizedKPIs\<close>

definition msg_session_expired :: string where
  "msg_session_expired = ''Session expir'' @ [CHR 0xE9, CHR ''e'']"

definition msg_load_error :: string where
  "msg_load_error = ''Erreur de chargement des donn'' @ [CHR 0xE9] @ ''es''"

text \<open>The \<^verbatim>\<open>catch\<close> and \<^verbatim>\<open>finally\<close> blocks.\<close>

definition finally_block :: "world \<Rightarrow> world" where
  "finally_block w = w\<lparr>loading := False\<rparr>"

definition catch_error :: "thrown \<Rightarrow> world \<Rightarrow> world" where
  "catch_error err w =
     finally_block (w\<lparr>error := Some (case err of ErrorObj m \<Rightarrow> m | OtherValue \<Rightarrow> msg_load_error)\<rparr>)"

text \<open>
  The last step of the \<^verbatim>\<open>try\<close>: the stored session is parsed again and, when it has a
  truthy \<^verbatim>\<open>company_id\<close>, the activity update is issued and awaited.
\<close>

definition update_last_activity :: "platform \<Rightarrow> backend \<Rightarrow> world \<Rightarrow> world" where
  "update_last_activity plat bk w =
     (case JSON_parse plat
             (case getItem w ''company_session'' of
                None \<Rightarrow> ''{}''
              | Some s \<Rightarrow> if s = [] then ''{}'' else s) of
        None \<Rightarrow> catch_error (ErrorObj ''SyntaxError'') w
      | Some session \<Rightarrow>
          (case get_prop session ''company_id'' of
             Inl err \<Rightarrow> catch_error err w
           | Inr company_id \<Rightarrow>
               if truthy company_id
               then (let w' = issue [UpdateActivity company_id] w
                     in case update_activity bk company_id of
                          Pending \<Rightarrow> w'
                        | Rejected err \<Rightarrow> catch_error err w'
                        | Fulfilled _ \<Rightarrow> finally_block w')
               else finally_block w))"

definition fetchOptimizedKPIs ::
  "platform \<Rightarrow> backend \<Rightarrow> int \<Rightarrow> string \<Rightarrow> string \<Rightarrow> world \<Rightarrow> world" where
  "fetchOptimizedKPIs plat bk now establishmentId period w =
     (if establishmentId = [] \<or> period = [] then w\<lparr>loading := False\<rparr>
      else
        (case validateSession plat bk now (w\<lparr>loading := True, error := None\<rparr>) of
           (None, w1) \<Rightarrow> w1
         | (Some isValidSession, w1) \<Rightarrow>
             if \<not> truthy isValidSession
             then finally_block (w1\<lparr>error := Some msg_session_expired,
                                location_href := Some ''/login''\<rparr>)
             else
               (let w2 = issue [ReadWorkforce establishmentId period,
                                ReadFinancials establishmentId period,
                                ReadAbsences establishmentId period] w1
                in case read_snapshots bk establishmentId period of
                     Pending \<Rightarrow> w2
                   | Rejected err \<Rightarrow> catch_error err w2
                   | Fulfilled (workforceRes, financialRes, absenceRes) \<Rightarrow>
                       (case res_error workforceRes of
                          Some m \<Rightarrow> catch_error (ErrorObj (''Workforce data: '' @ m)) w2
                        | None \<Rightarrow>
                       (case res_error financialRes of
                          Some m \<Rightarrow> catch_error (ErrorObj (''Financial data: '' @ m)) w2
                        | None \<Rightarrow>
                       (case res_error absenceRes of
                          Some m \<Rightarrow> catch_error (ErrorObj (''Absence data: '' @ m)) w2
                        | None \<Rightarrow>
                            update_last_activity plat bk
                              (w2\<lparr>data := Some (transformedData plat workforceRes financialRes
                                                   absenceRes)\<rparr>)))))))"

subsection \<open>Notions used in the statements\<close>

text \<open>The calls that read a snapshot partition.\<close>

definition is_read :: "call \<Rightarrow> bool" where
  "is_read c = (case c of ReadWorkforce _ _ \<Rightarrow> True | ReadFinancials _ _ \<Rightarrow> True
                | ReadAbsences _ _ \<Rightarrow> True | _ \<Rightarrow> False)"

text \<open>
  The store holds the non-empty text \<open>s\<close> under \<^verbatim>\<open>company_session\<close>, and \<open>s\<close> parses to
  \<open>session\<close>, which is not \<^verbatim>\<open>null\<close>.
\<close>

definition stored_session :: "platform \<Rightarrow> world \<Rightarrow> string \<Rightarrow> jsv \<Rightarrow> bool" where
  "stored_session plat w s session \<longleftrightarrow>
     getItem w ''company_session'' = Some s \<and> s \<noteq> [] \<and> JSON_parse plat s = Some session
     \<and> \<not> nullish session"

text \<open>
  The number \<open>n\<close> is what the coercion makes of the column value \<open>v\<close>, for the values
  the specification names: \<^verbatim>\<open>null\<close>, \<^verbatim>\<open>undefined\<close>, the string \<^verbatim>\<open>abc\<close> and \<open>NaN\<close>
  give \<open>0\<close>, the string \<^verbatim>\<open>42\<close> gives \<open>42\<close>, and a finite number is kept.
\<close>

definition coerced :: "jsv \<Rightarrow> jsnum \<Rightarrow> bool" where
  "coerced v n \<longleftrightarrow>
     (v \<in> set [JNull, JUndefined, JStr ''abc'', JNum NaN] \<longrightarrow> n = Fin 0)
     \<and> (v = JStr ''42'' \<longrightarrow> n = Fin 42)
     \<and> (case v of JNum (Fin r) \<Rightarrow> n = Fin r | _ \<Rightarrow> True)"

section \<open>Sample inputs\<close>

text \<open>
  Concrete inputs for the instances below. The sample platform is a finite excerpt of the
  real functions: \<^verbatim>\<open>atob\<close>, \<^verbatim>\<open>JSON.parse\<close> and \<^verbatim>\<open>Date.parse\<close> at the strings
  listed, throwing (or \<open>NaN\<close>) elsewhere. The two cookies are the base64 encodings of the
  two session texts; the clock is midnight UTC of 2 November 2026.
\<close>

definition session_json :: string where
  \<open>session_json =
     ''{"company_id":"c1","access_token":"t1","expires_at":"2999-01-01T00:00:00Z"}''\<close>

definition expired_json :: string where
  \<open>expired_json =
     ''{"company_id":"c1","access_token":"t1","expires_at":"2000-01-01T00:00:00Z"}''\<close>

definition session_cookie :: string where
  "session_cookie = ''eyJjb21wYW55X2lkIjoiYzEiLCJhY2Nlc3NfdG9rZW4iOiJ0MSIsImV4cGlyZXNfYXQiOiIyOTk5LTAxLTAxVDAwOjAwOjAwWiJ9''"

definition expired_cookie :: string where
  "expired_cookie = ''eyJjb21wYW55X2lkIjoiYzEiLCJhY2Nlc3NfdG9rZW4iOiJ0MSIsImV4cGlyZXNfYXQiOiIyMDAwLTAxLTAxVDAwOjAwOjAwWiJ9''"

definition session_value :: jsv where
  "session_value = JObj [(''company_id'', JStr ''c1''), (''access_token'', JStr ''t1''),
     (''expires_at'', JStr ''2999-01-01T00:00:00Z'')]"

definition expired_value :: jsv where
  "expired_value = JObj [(''company_id'', JStr ''c1''), (''access_token'', JStr ''t1''),
     (''expires_at'', JStr ''2000-01-01T00:00:00Z'')]"

definition sample_platform :: platform where
  "sample_platform =
     \<lparr> atob = map_of [(session_cookie, session_json), (expired_cookie, expired_json),
                       (''e30='', ''{}'')],
       JSON_parse = map_of [(session_json, session_value), (expired_json, expired_value),
                            (''{}'', JObj [])],
       Date_parse = map_of [(''2999-01-01T00:00:00Z'', 32472144000000),
                            (''2000-01-01T00:00:00Z'', 946684800000)],
       ToString = (\<lambda>_. ''[object Object]''),
       header_value = Some \<rparr>"

definition sample_now :: int where
  "sample_now = 1793577600000"

definition sample_workforce_row :: workforce_row where
  "sample_workforce_row =
     \<lparr> effectif_fin_mois = JNum (Fin 14), etp_fin_mois = JNum (Fin (25 / 2)),
       nb_entrees = JNum (Fin 1), nb_sorties = JNum (Fin 0), taux_turnover = JStr ''abc'',
       pct_cdi = JStr ''42'', age_moyen = JUndefined, anciennete_moyenne_mois = JNum NaN,
       pct_hommes = JNull, pct_femmes = JNum (Fin 50) \<rparr>"

definition sample_financial_row :: financial_row where
  "sample_financial_row =
     \<lparr> masse_salariale_brute = JStr ''42'', cout_total_employeur = JNum (Fin 60000),
       salaire_base_moyen = JNull, cout_moyen_par_fte = JStr ''abc'',
       part_variable = JUndefined, taux_charges = JNum NaN \<rparr>"

definition sample_absence_row :: absence_row where
  "sample_absence_row =
     \<lparr> taux_absenteisme = JNull, nb_jours_absence = JNum (Fin 3),
       nb_absences_total = JNum (Fin 2), duree_moyenne_absence = JNum (Fin (3 / 2)),
       nb_salaries_absents = JNum (Fin 2), nb_jours_maladie = JNum (Fin 1) \<rparr>"

text \<open>
  A query client that accepts the token \<^verbatim>\<open>t1\<close>, has a workforce and an absence row but
  no payroll row, and whose activity update succeeds.
\<close>

definition sample_backend :: backend where
  "sample_backend =
     \<lparr> rpc_validate = (\<lambda>p_token. if p_token = JStr ''t1''
                          then Fulfilled (JArr [JObj [(''is_valid'', JBool True)]])
                          else Fulfilled (JArr [])),
       read_snapshots = (\<lambda>establishmentId period.
          Fulfilled (QueryResult (Some sample_workforce_row) None,
                     QueryResult None None,
                     QueryResult (Some sample_absence_row) None)),
       update_activity = (\<lambda>company_id. Fulfilled None) \<rparr>"

definition sample_store :: "(string \<times> string) list" where
  "sample_store = [(''company_session'', session_json)]"

definition expired_store :: "(string \<times> string) list" where
  "expired_store = [(''company_session'', expired_json)]"

text \<open>Variants of the client: one call fails, hangs or reports an error.\<close>

definition rejecting_rpc_backend :: backend where
  "rejecting_rpc_backend =
     sample_backend\<lparr>rpc_validate := (\<lambda>p_token. Rejected (ErrorObj ''Failed to fetch''))\<rparr>"

definition workforce_error_backend :: backend where
  "workforce_error_backend =
     sample_backend\<lparr>read_snapshots := (\<lambda>establishmentId period.
        Fulfilled (QueryResult None (Some ''connection refused''),
                   QueryResult None None,
                   QueryResult (Some sample_absence_row) None))\<rparr>"

definition failing_update_backend :: backend where
  "failing_update_backend =
     sample_backend\<lparr>update_activity := (\<lambda>company_id. Fulfilled (Some ''permission denied''))\<rparr>"

definition hanging_update_backend :: backend where
  "hanging_update_backend = sample_backend\<lparr>update_activity := (\<lambda>company_id. Pending)\<rparr>"

definition rejecting_update_backend :: backend where
  "rejecting_update_backend =
     sample_backend\<lparr>update_activity := (\<lambda>company_id. Rejected (ErrorObj ''Failed to fetch''))\<rparr>"

section \<open>Path classification\<close>

text \<open>
  Every prefix in the three tables begins with a slash, and the public table holds the
  slash itself, which is tested with \<^verbatim>\<open>startsWith\<close>: so every admin path and every
  protected path is a public path.
\<close>

lemma isPublicPath_slash: "isPublicPath (CHR ''/'' # t)"
  by (simp add: isPublicPath_def publicPaths_def startsWith_def)

lemma isProtectedPath_slash: "isProtectedPath p \<Longrightarrow> \<exists>t. p = CHR ''/'' # t"
  by (cases p) (auto simp: isProtectedPath_def protectedPaths_def startsWith_def)

lemma isAdminPath_slash: "isAdminPath p \<Longrightarrow> \<exists>t. p = CHR ''/'' # t"
  by (cases p) (auto simp: isAdminPath_def adminPaths_def startsWith_def)

lemma protected_is_public: "isProtectedPath p \<Longrightarrow> isPublicPath p"
  using isProtectedPath_slash isPublicPath_slash by blast

lemma admin_is_public: "isAdminPath p \<Longrightarrow> isPublicPath p"
  using isAdminPath_slash isPublicPath_slash by blast

lemma public_dashboard: "isPublicPath ''/dashboard''"
  by (simp add: isPublicPath_def publicPaths_def startsWith_def)

lemma protected_dashboard: "isProtectedPath ''/dashboard''"
  by (simp add: isProtectedPath_def protectedPaths_def startsWith_def)

lemma public_admin_users: "isPublicPath ''/admin/users''"
  by (simp add: isPublicPath_def publicPaths_def startsWith_def)

lemma admin_admin_users: "isAdminPath ''/admin/users''"
  by (simp add: isAdminPath_def adminPaths_def startsWith_def)

section \<open>The middleware as a whole\<close>

lemma bindE_simps [simp]: "bindE (Inl e) f = Inl e" "bindE (Inr x) f = f x"
  by (simp_all add: bindE_def)

lemma try_catch_simps [simp]:
  "try_catch (Inl e) handler = handler e" "try_catch (Inr x) handler = Inr x"
  by (simp_all add: try_catch_def)

text \<open>No throw leaves the middleware: every throwing call sits in a \<^verbatim>\<open>try\<close>.\<close>

lemma middleware_never_throws: "middleware plat now req \<noteq> Inl e"
  by (auto simp: middleware_def admin_gate_def company_gate_def try_catch_def bindE_def
      split: option.splits sum.splits)

text \<open>Since the protected branch lies behind the public test, it is never reached.\<close>

lemma middleware_protected_passes:
  "isProtectedPath (path req) \<Longrightarrow> middleware plat now req = Inr (Next [])"
  by (simp add: middleware_def protected_is_public)

lemma middleware_admin_passes:
  "isAdminPath (path req) \<Longrightarrow> middleware plat now req = Inr (Next [])"
  by (simp add: middleware_def admin_is_public)

text \<open>
  C1. A request for a protected path without a valid company session should be redirected
  to \<^verbatim>\<open>/login\<close>. On the code, the request for \<^verbatim>\<open>/dashboard\<close> without any cookie is
  passed through: the path starts with the public prefix \<^verbatim>\<open>/\<close>.
\<close>

theorem C1_dashboard_without_session_passes:
  "isProtectedPath ''/dashboard''
   \<and> cookies_get \<lparr>path = ''/dashboard'', cookies = []\<rparr> ''company_session'' = None
   \<and> middleware plat now \<lparr>path = ''/dashboard'', cookies = []\<rparr> = Inr (Next [])"
  by (simp add: middleware_def public_dashboard protected_dashboard cookies_get_def)

text \<open>
  C2. A request whose path equals or starts with a public prefix is passed through
  unmodified, and no session is looked at: the response is the same for every platform,
  clock and set of cookies. This holds also when the path is a protected or admin path.
\<close>

theorem C2_public_wins:
  assumes "isPublicPath (path req)"
  shows "middleware plat now req = Inr (Next [])
       \<and> middleware plat' now' (req\<lparr>cookies := cs\<rparr>) = middleware plat now req"
  using assms by (simp add: middleware_def)

theorem C2_public_wins_witness:
  "isPublicPath ''/dashboard'' \<and> isProtectedPath ''/dashboard''
   \<and> middleware sample_platform sample_now
        \<lparr>path = ''/dashboard'', cookies = [(''company_session'', ''%%%'')]\<rparr> = Inr (Next [])
   \<and> middleware sample_platform 0 \<lparr>path = ''/dashboard'', cookies = []\<rparr>
       = middleware sample_platform sample_now
           \<lparr>path = ''/dashboard'', cookies = [(''company_session'', ''%%%'')]\<rparr>"
proof -
  have pub: "isPublicPath
      (path \<lparr>path = ''/dashboard'', cookies = [(''company_session'', ''%%%'')]\<rparr>)"
    by (simp add: public_dashboard)
  from C2_public_wins [OF pub, of sample_platform sample_now sample_platform 0 "[]"]
  show ?thesis by (simp add: public_dashboard protected_dashboard)
qed

section \<open>The two gates\<close>

lemma decode_session_cookie:
  "decode_session sample_platform session_cookie = Inr session_value"
  by (simp add: decode_session_def sample_platform_def session_cookie_def expired_cookie_def
      session_json_def expired_json_def)

lemma decode_expired_cookie:
  "decode_session sample_platform expired_cookie = Inr expired_value"
  by (simp add: decode_session_def sample_platform_def session_cookie_def expired_cookie_def
      session_json_def expired_json_def)

lemma decode_garbage: "decode_session sample_platform ''%%%'' = Inl (ErrorObj ''InvalidCharacterError'')"
  by (simp add: decode_session_def sample_platform_def session_cookie_def expired_cookie_def)

lemma company_gate_sample:
  "company_gate sample_platform sample_now (Some session_cookie)
     = Inr (Next [(''x-company-id'', ''c1''), (''x-access-token'', ''t1'')])"
proof -
  have exp: "\<not> expired sample_platform sample_now (JStr ''2999-01-01T00:00:00Z'')"
    by (simp add: expired_def sample_platform_def sample_now_def)
  have hdr: "headers_set sample_platform name (JStr s) = Inr (name, s)" for name s
    by (simp add: headers_set_def sample_platform_def)
  show ?thesis
    by (simp add: company_gate_def company_try_def decode_session_cookie)
       (simp add: session_value_def get_prop_def exp hdr)
qed

text \<open>A cookie that does not decode is answered by a redirect, by either gate.\<close>

lemma company_gate_malformed:
  "decode_session plat v = Inl e \<Longrightarrow>
   company_gate plat now (Some v) = Inr (Redirect ''/login'' [(''company_session'', [], 0)])"
  by (simp add: company_gate_def company_try_def)

lemma admin_gate_malformed:
  "decode_session plat v = Inl e \<Longrightarrow>
   admin_gate plat now (Some v) = Inr (Redirect ''/admin/login'' [])"
  by (simp add: admin_gate_def admin_try_def)

text \<open>
  The company gate lets a request pass only with a cookie that decodes to a session that
  is not expired and has a truthy \<^verbatim>\<open>company_id\<close> and \<^verbatim>\<open>access_token\<close>; every other
  answer is a redirect to \<^verbatim>\<open>/login\<close>.
\<close>

lemma company_gate_pass_only_checked:
  assumes "company_gate plat now c = Inr (Next hs)"
  shows "\<exists>v session. c = Some v \<and> decode_session plat v = Inr session
           \<and> \<not> expired plat now (field session ''expires_at'')
           \<and> truthy (field session ''company_id'') \<and> truthy (field session ''access_token'')"
  using assms
  by (auto simp: company_gate_def company_try_def try_catch_def bindE_def get_prop_def
        headers_set_def
      split: option.splits sum.splits if_splits)

lemma company_gate_redirect_target:
  "company_gate plat now c = Inr (Redirect u cs) \<Longrightarrow> u = ''/login''"
  by (auto simp: company_gate_def company_try_def try_catch_def bindE_def get_prop_def
        headers_set_def
      split: option.splits sum.splits if_splits)

text \<open>
  C3. A request for a protected path with a complete, unexpired company session should be
  forwarded with the two identity headers. On the code, the request for \<^verbatim>\<open>/dashboard\<close>
  with such a cookie is forwarded without them, although the company gate, were it
  reached, would attach both.
\<close>

theorem C3_valid_session_forwarded_without_headers:
  "middleware sample_platform sample_now
       \<lparr>path = ''/dashboard'', cookies = [(''company_session'', session_cookie)]\<rparr>
     = Inr (Next [])
   \<and> company_gate sample_platform sample_now (Some session_cookie)
     = Inr (Next [(''x-company-id'', ''c1''), (''x-access-token'', ''t1'')])"
  by (simp add: company_gate_sample middleware_def public_dashboard)

text \<open>
  C5. A malformed cookie on an admin or protected path should be answered by a redirect to
  the login path of its role. On the code, the cookie \<^verbatim>\<open>%%%\<close> (not base64) on
  \<^verbatim>\<open>/admin/users\<close> and on \<^verbatim>\<open>/dashboard\<close> is passed through, although either gate, were
  it reached, would redirect.
\<close>

theorem C5_malformed_cookie_passes:
  "atob sample_platform ''%%%'' = None
   \<and> isAdminPath ''/admin/users'' \<and> isProtectedPath ''/dashboard''
   \<and> middleware sample_platform sample_now
        \<lparr>path = ''/admin/users'', cookies = [(''admin_session'', ''%%%'')]\<rparr> = Inr (Next [])
   \<and> middleware sample_platform sample_now
        \<lparr>path = ''/dashboard'', cookies = [(''company_session'', ''%%%'')]\<rparr> = Inr (Next [])
   \<and> admin_gate sample_platform sample_now (Some ''%%%'') = Inr (Redirect ''/admin/login'' [])
   \<and> company_gate sample_platform sample_now (Some ''%%%'')
        = Inr (Redirect ''/login'' [(''company_session'', [], 0)])"
  by (simp add: middleware_def public_dashboard public_admin_users admin_admin_users
      protected_dashboard admin_gate_malformed [OF decode_garbage]
      company_gate_malformed [OF decode_garbage])
     (simp add: sample_platform_def session_cookie_def expired_cookie_def)

section \<open>The hook: bookkeeping\<close>

lemma getItem_upd [simp]:
  "getItem (w\<lparr>loading := b\<rparr>) k = getItem w k"
  "getItem (w\<lparr>error := e\<rparr>) k = getItem w k"
  "getItem (w\<lparr>data := d\<rparr>) k = getItem w k"
  "getItem (issue cs w) k = getItem w k"
  by (simp_all add: getItem_def issue_def)

lemma getItem_removeItem [simp]: "getItem (removeItem k w) k = None"
proof -
  have "map_of (filter (\<lambda>kv. fst kv \<noteq> k) xs) k = None" for xs :: "(string \<times> string) list"
    by (induction xs) auto
  then show ?thesis by (simp add: getItem_def removeItem_def)
qed

lemma world_proj [simp]:
  "data (issue cs w) = data w" "error (issue cs w) = error w" "loading (issue cs w) = loading w"
  "location_href (issue cs w) = location_href w" "calls (issue cs w) = calls w @ cs"
  "localStorage (issue cs w) = localStorage w" "cookie_writes (issue cs w) = cookie_writes w"
  "data (finally_block w) = data w" "error (finally_block w) = error w"
  "loading (finally_block w) = False" "location_href (finally_block w) = location_href w"
  "calls (finally_block w) = calls w"
  "localStorage (finally_block w) = localStorage w" "cookie_writes (finally_block w) = cookie_writes w"
  "data (catch_error err w) = data w" "loading (catch_error err w) = False"
  "error (catch_error err w) = Some (case err of ErrorObj m \<Rightarrow> m | OtherValue \<Rightarrow> msg_load_error)"
  "location_href (catch_error err w) = location_href w" "calls (catch_error err w) = calls w"
  by (simp_all add: issue_def finally_block_def catch_error_def)

lemma stored_session_upd [simp]:
  "stored_session plat (w\<lparr>loading := b\<rparr>) s session = stored_session plat w s session"
  "stored_session plat (w\<lparr>error := e\<rparr>) s session = stored_session plat w s session"
  "stored_session plat (w\<lparr>data := d\<rparr>) s session = stored_session plat w s session"
  "stored_session plat (issue cs w) s session = stored_session plat w s session"
  by (simp_all add: stored_session_def)

lemma or_false_truthy [simp]: "truthy (or_false v) = truthy v"
  by (simp add: or_false_def)

section \<open>validateSession\<close>

text \<open>
  The check changes neither the three state cells nor the navigation target, and it
  issues no read.
\<close>

lemma validateSession_frame:
  assumes "validateSession plat bk now w = (r, w1)"
  shows "data w1 = data w \<and> loading w1 = loading w \<and> error w1 = error w
       \<and> location_href w1 = location_href w
       \<and> filter is_read (calls w1) = filter is_read (calls w)"
  using assms
  by (auto simp: validateSession_def issue_def removeItem_def document_cookie_assign_def
        is_read_def Let_def
      split: option.splits sum.splits if_splits promise.splits)

text \<open>A truthy verdict needs a stored, parseable, unexpired session and a validation call.\<close>

lemma validateSession_accepts:
  assumes "validateSession plat bk now w = (Some verdict, w1)" and "truthy verdict"
  shows "\<exists>s session. getItem w ''company_session'' = Some s \<and> s \<noteq> []
          \<and> JSON_parse plat s = Some session \<and> \<not> nullish session
          \<and> \<not> expired plat now (field session ''expires_at'')
          \<and> w1 = issue [RpcValidate (field session ''access_token'')] w"
  using assms
  by (auto simp: validateSession_def get_prop_def Let_def
      split: option.splits sum.splits if_splits promise.splits)

lemma validateSession_accepts_stored:
  assumes "validateSession plat bk now w = (Some verdict, w1)" and "truthy verdict"
  shows "\<exists>s session. stored_session plat w s session
          \<and> \<not> expired plat now (field session ''expires_at'')
          \<and> w1 = issue [RpcValidate (field session ''access_token'')] w"
  using validateSession_accepts [OF assms] by (auto simp: stored_session_def)

lemma validateSession_missing:
  "getItem w ''company_session'' = None \<Longrightarrow> validateSession plat bk now w = (Some (JBool False), w)"
  by (simp add: validateSession_def)

lemma validateSession_expired:
  assumes "getItem w ''company_session'' = Some s" "s \<noteq> []" "JSON_parse plat s = Some session"
    "\<not> nullish session" "expired plat now (field session ''expires_at'')"
  shows "validateSession plat bk now w = (Some (JBool False),
          document_cookie_assign ''company_session=; path=/; max-age=0'' (removeItem ''company_session'' w))"
  using assms by (simp add: validateSession_def get_prop_def)

lemma validateSession_rpc:
  assumes "getItem w ''company_session'' = Some s" "s \<noteq> []" "JSON_parse plat s = Some session"
    "\<not> nullish session" "\<not> expired plat now (field session ''expires_at'')"
  shows "validateSession plat bk now w =
     (case rpc_validate bk (field session ''access_token'') of
        Pending \<Rightarrow> None
      | Rejected _ \<Rightarrow> Some (JBool False)
      | Fulfilled validationResult \<Rightarrow> Some (or_false (opt_field (opt_index0 validationResult) ''is_valid'')),
      issue [RpcValidate (field session ''access_token'')] w)"
  using assms by (simp add: validateSession_def get_prop_def Let_def split: promise.splits)

lemma validateSession_verdicts:
  assumes "stored_session plat w s session" "\<not> expired plat now (field session ''expires_at'')"
  shows "rpc_validate bk (field session ''access_token'') = Rejected r \<Longrightarrow>
           validateSession plat bk now w = (Some (JBool False), issue [RpcValidate (field session ''access_token'')] w)"
    and "rpc_validate bk (field session ''access_token'') = Fulfilled vr \<Longrightarrow>
           validateSession plat bk now w = (Some (or_false (opt_field (opt_index0 vr) ''is_valid'')),
              issue [RpcValidate (field session ''access_token'')] w)"
  using assms by (simp_all add: stored_session_def validateSession_rpc)

lemma validateSession_update_activity [simp]:
  "validateSession plat (bk\<lparr>update_activity := f\<rparr>) now w = validateSession plat bk now w"
  by (simp add: validateSession_def Let_def split: option.splits sum.splits)

section \<open>fetchOptimizedKPIs\<close>

lemma fetch_session_invalid:
  assumes "establishmentId \<noteq> []" "period \<noteq> []"
    and "validateSession plat bk now (w\<lparr>loading := True, error := None\<rparr>) = (Some verdict, w1)"
    and "\<not> truthy verdict"
  shows "fetchOptimizedKPIs plat bk now establishmentId period w
         = finally_block (w1\<lparr>error := Some msg_session_expired, location_href := Some ''/login''\<rparr>)"
  using assms by (simp add: fetchOptimizedKPIs_def)

lemma update_last_activity_stored:
  assumes "stored_session plat w s session"
  shows "update_last_activity plat bk w =
     (if truthy (field session ''company_id'')
      then (case update_activity bk (field session ''company_id'') of
              Pending \<Rightarrow> issue [UpdateActivity (field session ''company_id'')] w
            | Rejected err \<Rightarrow> catch_error err (issue [UpdateActivity (field session ''company_id'')] w)
            | Fulfilled _ \<Rightarrow> finally_block (issue [UpdateActivity (field session ''company_id'')] w))
      else finally_block w)"
  using assms
  by (simp add: update_last_activity_def stored_session_def get_prop_def Let_def)

lemma update_last_activity_data [simp]: "data (update_last_activity plat bk w) = data w"
  by (simp add: update_last_activity_def Let_def split: option.splits sum.splits promise.splits)

lemma fetch_accepted:
  assumes ids: "establishmentId \<noteq> []" "period \<noteq> []"
    and vs: "validateSession plat bk now (w\<lparr>loading := True, error := None\<rparr>) = (Some verdict, w1)"
    and ok: "truthy verdict"
    and rd: "read_snapshots bk establishmentId period = Fulfilled (workforceRes, financialRes, absenceRes)"
  shows "fetchOptimizedKPIs plat bk now establishmentId period w =
     (let w2 = issue [ReadWorkforce establishmentId period, ReadFinancials establishmentId period,
                      ReadAbsences establishmentId period] w1
      in case res_error workforceRes of
           Some m \<Rightarrow> catch_error (ErrorObj (''Workforce data: '' @ m)) w2
         | None \<Rightarrow>
        (case res_error financialRes of
           Some m \<Rightarrow> catch_error (ErrorObj (''Financial data: '' @ m)) w2
         | None \<Rightarrow>
        (case res_error absenceRes of
           Some m \<Rightarrow> catch_error (ErrorObj (''Absence data: '' @ m)) w2
         | None \<Rightarrow> update_last_activity plat bk
              (w2\<lparr>data := Some (transformedData plat workforceRes financialRes absenceRes)\<rparr>))))"
  using ids vs ok rd by (simp add: fetchOptimizedKPIs_def)

lemma fetch_first_error:
  assumes ids: "establishmentId \<noteq> []" "period \<noteq> []"
    and vs: "validateSession plat bk now (w\<lparr>loading := True, error := None\<rparr>) = (Some verdict, w1)"
    and ok: "truthy verdict"
    and rd: "read_snapshots bk establishmentId period = Fulfilled (workforceRes, financialRes, absenceRes)"
    and er: "(case res_error workforceRes of Some m \<Rightarrow> Some (''Workforce data: '' @ m)
              | None \<Rightarrow> (case res_error financialRes of Some m \<Rightarrow> Some (''Financial data: '' @ m)
              | None \<Rightarrow> (case res_error absenceRes of Some m \<Rightarrow> Some (''Absence data: '' @ m)
              | None \<Rightarrow> None))) = Some msg"
  shows "error (fetchOptimizedKPIs plat bk now establishmentId period w) = Some msg
       \<and> data (fetchOptimizedKPIs plat bk now establishmentId period w) = data w
       \<and> loading (fetchOptimizedKPIs plat bk now establishmentId period w) = False"
  using er validateSession_frame [OF vs]
  by (auto simp: fetch_accepted [OF ids vs ok rd] Let_def split: option.splits)

lemma fetch_success_data:
  assumes ids: "establishmentId \<noteq> []" "period \<noteq> []"
    and vs: "validateSession plat bk now (w\<lparr>loading := True, error := None\<rparr>) = (Some verdict, w1)"
    and ok: "truthy verdict"
    and rd: "read_snapshots bk establishmentId period = Fulfilled (workforceRes, financialRes, absenceRes)"
    and er: "res_error workforceRes = None" "res_error financialRes = None" "res_error absenceRes = None"
  shows "data (fetchOptimizedKPIs plat bk now establishmentId period w)
           = Some (transformedData plat workforceRes financialRes absenceRes)"
  using er by (simp add: fetch_accepted [OF ids vs ok rd] Let_def)

lemma fetch_success_settled:
  assumes ids: "establishmentId \<noteq> []" "period \<noteq> []"
    and vs: "validateSession plat bk now (w\<lparr>loading := True, error := None\<rparr>) = (Some verdict, w1)"
    and ok: "truthy verdict"
    and rd: "read_snapshots bk establishmentId period = Fulfilled (workforceRes, financialRes, absenceRes)"
    and er: "res_error workforceRes = None" "res_error financialRes = None" "res_error absenceRes = None"
    and upd: "\<forall>company_id. \<exists>u. update_activity bk company_id = Fulfilled u"
  shows "error (fetchOptimizedKPIs plat bk now establishmentId period w) = None
       \<and> loading (fetchOptimizedKPIs plat bk now establishmentId period w) = False"
proof -
  from validateSession_accepts_stored [OF vs ok] obtain s session where
    st: "stored_session plat (w\<lparr>loading := True, error := None\<rparr>) s session"
    and w1: "w1 = issue [RpcValidate (field session ''access_token'')]
                    (w\<lparr>loading := True, error := None\<rparr>)"
    by blast
  have st2: "stored_session plat (issue cs w1\<lparr>data := d\<rparr>) s session" for cs d
    using st by (simp add: w1)
  from upd obtain u where u: "update_activity bk (field session ''company_id'') = Fulfilled u"
    by blast
  have e1: "error w1 = None" by (simp add: w1)
  show ?thesis
    using er by (simp add: fetch_accepted [OF ids vs ok rd] Let_def
        update_last_activity_stored [OF st2] u e1)
qed

section \<open>Number coercion\<close>

lemma number_or_zero_simps:
  "number_or_zero plat JNull = Fin 0"
  "number_or_zero plat JUndefined = Fin 0"
  "number_or_zero plat (JNum NaN) = Fin 0"
  "number_or_zero plat (JNum (Fin r)) = Fin r"
  by (simp_all add: number_or_zero_def)

lemma StringToNumber_abc: "StringToNumber ''abc'' = NaN"
  by (simp add: StringToNumber_def trim_def is_ws_def signed_decimal_def unsigned_decimal_def
      is_digit_def digit_of_def)

lemma StringToNumber_42: "StringToNumber ''42'' = Fin 42"
  by (simp add: StringToNumber_def trim_def is_ws_def signed_decimal_def unsigned_decimal_def
      is_digit_def digit_of_def digits_value_def pow10_def)

lemma number_or_zero_strings:
  "number_or_zero plat (JStr ''abc'') = Fin 0"
  "number_or_zero plat (JStr ''42'') = Fin 42"
  by (simp_all add: number_or_zero_def StringToNumber_abc StringToNumber_42)

section \<open>The gates on a decoded session\<close>

lemma gates_not_nullish:
  assumes "decode_session plat v = Inr session" "\<not> nullish session"
  shows "admin_gate plat now (Some v) =
           (if expired plat now (field session ''expires_at'')
            then Inr (Redirect ''/admin/login'' [(''admin_session'', [], 0)])
            else Inr (Next []))"
    and "company_gate plat now (Some v) =
           (if expired plat now (field session ''expires_at'')
            then Inr (Redirect ''/login'' [(''company_session'', [], 0)])
            else try_catch
              (if (if \<not> truthy (field session ''company_id'') then True
                   else \<not> truthy (field session ''access_token''))
               then Inr (Redirect ''/login'' [(''company_session'', [], 0)])
               else bindE (headers_set plat ''x-company-id'' (field session ''company_id''))
                     (\<lambda>h1. bindE (headers_set plat ''x-access-token'' (field session ''access_token''))
                     (\<lambda>h2. Inr (Next [h1, h2]))))
              (\<lambda>error. Inr (Redirect ''/login'' [(''company_session'', [], 0)])))"
  using assms
  by (simp_all add: admin_gate_def admin_try_def company_gate_def company_try_def get_prop_def)

section \<open>The sample inputs evaluated\<close>

lemma stored_sample: "stored_session sample_platform (mounted sample_store) session_json session_value"
  by (simp add: stored_session_def getItem_def mounted_def sample_store_def sample_platform_def
      session_json_def expired_json_def session_value_def)

lemma stored_expired_sample:
  "stored_session sample_platform (mounted expired_store) expired_json expired_value"
  by (simp add: stored_session_def getItem_def mounted_def expired_store_def sample_platform_def
      session_json_def expired_json_def expired_value_def)

lemma newDate_sample:
  "newDate sample_platform (field session_value ''expires_at'') = Some 32472144000000"
  "newDate sample_platform (field expired_value ''expires_at'') = Some 946684800000"
  by (simp_all add: session_value_def expired_value_def sample_platform_def)

lemma not_expired_sample: "\<not> expired sample_platform sample_now (field session_value ''expires_at'')"
  by (simp add: expired_def newDate_sample sample_now_def)

lemma expired_sample: "expired sample_platform sample_now (field expired_value ''expires_at'')"
  by (simp add: expired_def newDate_sample sample_now_def)

lemma session_value_fields:
  "field session_value ''access_token'' = JStr ''t1''"
  "field session_value ''company_id'' = JStr ''c1''"
  by (simp_all add: session_value_def)

lemma sample_validate:
  assumes "rpc_validate bk (JStr ''t1'') = Fulfilled (JArr [JObj [(''is_valid'', JBool True)]])"
  shows "validateSession sample_platform bk sample_now (mounted sample_store\<lparr>loading := True, error := None\<rparr>)
       = (Some (JBool True), issue [RpcValidate (JStr ''t1'')] (mounted sample_store\<lparr>loading := True, error := None\<rparr>))"
proof -
  have st: "stored_session sample_platform (mounted sample_store\<lparr>loading := True, error := None\<rparr>)
      session_json session_value"
    using stored_sample by simp
  show ?thesis
    using validateSession_verdicts(2) [OF st not_expired_sample, of bk] assms
    by (simp add: session_value_fields opt_index0_def opt_field_def or_false_def)
qed

lemma sample_rpc:
  "rpc_validate sample_backend (JStr ''t1'') = Fulfilled (JArr [JObj [(''is_valid'', JBool True)]])"
  "rpc_validate workforce_error_backend (JStr ''t1'') = Fulfilled (JArr [JObj [(''is_valid'', JBool True)]])"
  "rpc_validate failing_update_backend (JStr ''t1'') = Fulfilled (JArr [JObj [(''is_valid'', JBool True)]])"
  "rpc_validate hanging_update_backend (JStr ''t1'') = Fulfilled (JArr [JObj [(''is_valid'', JBool True)]])"
  "rpc_validate rejecting_update_backend (JStr ''t1'') = Fulfilled (JArr [JObj [(''is_valid'', JBool True)]])"
  by (simp_all add: sample_backend_def workforce_error_backend_def failing_update_backend_def
      hanging_update_backend_def rejecting_update_backend_def)

lemma sample_reads:
  "read_snapshots sample_backend ''E1'' ''2024-01''
      = Fulfilled (QueryResult (Some sample_workforce_row) None, QueryResult None None,
                   QueryResult (Some sample_absence_row) None)"
  "read_snapshots hanging_update_backend ''E1'' ''2024-01''
      = Fulfilled (QueryResult (Some sample_workforce_row) None, QueryResult None None,
                   QueryResult (Some sample_absence_row) None)"
  "read_snapshots rejecting_update_backend ''E1'' ''2024-01''
      = Fulfilled (QueryResult (Some sample_workforce_row) None, QueryResult None None,
                   QueryResult (Some sample_absence_row) None)"
  by (simp_all add: sample_backend_def hanging_update_backend_def rejecting_update_backend_def)

section \<open>The claims about sessions and the KPI fetch\<close>

text \<open>
  What the hook and the two gates do with a session whose \<^verbatim>\<open>expires_at\<close> lies in the
  past: \<open>validateSession\<close> returns \<^verbatim>\<open>false\<close>, removes the \<^verbatim>\<open>company_session\<close> entry
  of the store and writes the clearing cookie, without any call to the backend; either
  gate answers such a cookie with a redirect that clears the cookie.
\<close>

lemma expired_session_hook_and_gates:
  assumes "\<not> nullish session"
    and "newDate plat (field session ''expires_at'') = Some t" and "t < now"
  shows "(stored_session plat w s session \<longrightarrow>
            fst (validateSession plat bk now w) = Some (JBool False)
          \<and> getItem (snd (validateSession plat bk now w)) ''company_session'' = None
          \<and> cookie_writes (snd (validateSession plat bk now w))
              = cookie_writes w @ [''company_session=; path=/; max-age=0'']
          \<and> calls (snd (validateSession plat bk now w)) = calls w)
       \<and> (decode_session plat v = Inr session \<longrightarrow>
            company_gate plat now (Some v)
              = Inr (Redirect ''/login'' [(''company_session'', [], 0)])
          \<and> admin_gate plat now (Some v)
              = Inr (Redirect ''/admin/login'' [(''admin_session'', [], 0)]))"
proof -
  have ex: "expired plat now (field session ''expires_at'')"
    using assms by (simp add: expired_def)
  have hook: "validateSession plat bk now w = (Some (JBool False),
          document_cookie_assign ''company_session=; path=/; max-age=0''
            (removeItem ''company_session'' w))"
    if "stored_session plat w s session"
    using that validateSession_expired [of w s plat session now bk] ex
    by (simp add: stored_session_def)
  have cw: "getItem (document_cookie_assign c w') k = getItem w' k"
    "cookie_writes (document_cookie_assign c (removeItem k w')) = cookie_writes w' @ [c]"
    "calls (document_cookie_assign c (removeItem k w')) = calls w'" for c w' k
    by (simp_all add: document_cookie_assign_def getItem_def removeItem_def)
  show ?thesis
    using hook gates_not_nullish [OF _ assms(1), of plat v now] ex
    by (auto simp: cw)
qed

text \<open>
  C4. For a session whose \<^verbatim>\<open>expires_at\<close> lies in the past, the local check should
  answer invalid and clear the stored copies. The hook does: on the store holding the
  expired session, \<open>validateSession\<close> returns \<^verbatim>\<open>false\<close>, removes the entry and writes
  the clearing cookie. The middleware does not: the request for \<^verbatim>\<open>/dashboard\<close> (and the
  one for \<^verbatim>\<open>/admin/users\<close>) carrying the expired cookie is passed through and no cookie
  is cleared, although the company gate, were it reached, would redirect and clear it.
\<close>

theorem C4_expired_cookie_passes_middleware:
  "decode_session sample_platform expired_cookie = Inr expired_value
   \<and> expired sample_platform sample_now (field expired_value ''expires_at'')
   \<and> middleware sample_platform sample_now
        \<lparr>path = ''/dashboard'', cookies = [(''company_session'', expired_cookie)]\<rparr>
       = Inr (Next [])
   \<and> middleware sample_platform sample_now
        \<lparr>path = ''/admin/users'', cookies = [(''admin_session'', expired_cookie)]\<rparr>
       = Inr (Next [])
   \<and> company_gate sample_platform sample_now (Some expired_cookie)
       = Inr (Redirect ''/login'' [(''company_session'', [], 0)])
   \<and> admin_gate sample_platform sample_now (Some expired_cookie)
       = Inr (Redirect ''/admin/login'' [(''admin_session'', [], 0)])
   \<and> fst (validateSession sample_platform sample_backend sample_now (mounted expired_store))
       = Some (JBool False)
   \<and> getItem (snd (validateSession sample_platform sample_backend sample_now
        (mounted expired_store))) ''company_session'' = None
   \<and> cookie_writes (snd (validateSession sample_platform sample_backend sample_now
        (mounted expired_store))) = [''company_session=; path=/; max-age=0'']
   \<and> calls (snd (validateSession sample_platform sample_backend sample_now
        (mounted expired_store))) = []"
proof -
  have nn: "\<not> nullish expired_value" by (simp add: expired_value_def)
  have lt: "(946684800000::int) < sample_now" by (simp add: sample_now_def)
  from expired_session_hook_and_gates [OF nn newDate_sample(2) lt,
         of "mounted expired_store" expired_json sample_backend expired_cookie]
       stored_expired_sample decode_expired_cookie
  show ?thesis
    by (simp add: mounted_def middleware_def public_dashboard public_admin_users
        expired_sample)
qed

text \<open>
  C6. Whenever the session validation reports invalid, the fetch sets the error to the
  session-expired message, leaves \<open>data\<close> as it was (\<^verbatim>\<open>null\<close> after mounting),
  sets the navigation target to \<^verbatim>\<open>/login\<close>, ends loading and issues no read. The
  causes listed are: no stored session; an expired one; a validation call that rejects (a
  throw, or a time-out raised by the transport); one that returns no rows; one whose first
  row has a falsy \<^verbatim>\<open>is_valid\<close>; and, in general, any falsy verdict.
\<close>

theorem C6_invalid_session_aborts_fetch:
  assumes ids: "establishmentId \<noteq> []" "period \<noteq> []"
    and cause:
      "getItem w ''company_session'' = None
       \<or> (\<exists>s session. stored_session plat w s session
             \<and> expired plat now (field session ''expires_at''))
       \<or> (\<exists>s session r. stored_session plat w s session
             \<and> \<not> expired plat now (field session ''expires_at'')
             \<and> rpc_validate bk (field session ''access_token'') = Rejected r)
       \<or> (\<exists>s session. stored_session plat w s session
             \<and> \<not> expired plat now (field session ''expires_at'')
             \<and> rpc_validate bk (field session ''access_token'') = Fulfilled (JArr []))
       \<or> (\<exists>s session row rows. stored_session plat w s session
             \<and> \<not> expired plat now (field session ''expires_at'')
             \<and> rpc_validate bk (field session ''access_token'') = Fulfilled (JArr (row # rows))
             \<and> \<not> truthy (opt_field row ''is_valid''))
       \<or> (\<exists>verdict w1. validateSession plat bk now (w\<lparr>loading := True, error := None\<rparr>)
                           = (Some verdict, w1) \<and> \<not> truthy verdict)"
  shows "error (fetchOptimizedKPIs plat bk now establishmentId period w) = Some msg_session_expired
       \<and> data (fetchOptimizedKPIs plat bk now establishmentId period w) = data w
       \<and> location_href (fetchOptimizedKPIs plat bk now establishmentId period w) = Some ''/login''
       \<and> loading (fetchOptimizedKPIs plat bk now establishmentId period w) = False
       \<and> filter is_read (calls (fetchOptimizedKPIs plat bk now establishmentId period w))
           = filter is_read (calls w)"
proof -
  let ?w0 = "w\<lparr>loading := True, error := None\<rparr>"
  have "\<exists>verdict w1. validateSession plat bk now ?w0 = (Some verdict, w1) \<and> \<not> truthy verdict"
    using cause
  proof (elim disjE exE conjE)
    assume "getItem w ''company_session'' = None"
    then show ?thesis by (simp add: validateSession_missing)
  next
    fix s session
    assume "stored_session plat w s session" "expired plat now (field session ''expires_at'')"
    then show ?thesis
      using validateSession_expired [of ?w0 s plat session now bk]
      by (simp add: stored_session_def)
  next
    fix s session r
    assume "stored_session plat w s session" "\<not> expired plat now (field session ''expires_at'')"
      "rpc_validate bk (field session ''access_token'') = Rejected r"
    then show ?thesis
      using validateSession_verdicts(1) [of plat ?w0 s session now bk r] by simp
  next
    fix s session
    assume "stored_session plat w s session" "\<not> expired plat now (field session ''expires_at'')"
      "rpc_validate bk (field session ''access_token'') = Fulfilled (JArr [])"
    then show ?thesis
      using validateSession_verdicts(2) [of plat ?w0 s session now bk "JArr []"]
      by (simp add: opt_index0_def opt_field_def)
  next
    fix s session row rows
    assume "stored_session plat w s session" "\<not> expired plat now (field session ''expires_at'')"
      "rpc_validate bk (field session ''access_token'') = Fulfilled (JArr (row # rows))"
      "\<not> truthy (opt_field row ''is_valid'')"
    then show ?thesis
      using validateSession_verdicts(2) [of plat ?w0 s session now bk "JArr (row # rows)"]
      by (simp add: opt_index0_def)
  next
    fix verdict w1
    assume "validateSession plat bk now ?w0 = (Some verdict, w1)" "\<not> truthy verdict"
    then show ?thesis by blast
  qed
  then obtain verdict w1 where vs: "validateSession plat bk now ?w0 = (Some verdict, w1)"
    and falsy: "\<not> truthy verdict" by blast
  have eq: "fetchOptimizedKPIs plat bk now establishmentId period w
         = finally_block (w1\<lparr>error := Some msg_session_expired, location_href := Some ''/login''\<rparr>)"
    using fetch_session_invalid [OF ids vs falsy] .
  from validateSession_frame [OF vs] show ?thesis
    by (simp add: eq finally_block_def)
qed

theorem C6_invalid_session_aborts_fetch_witness:
  "error (fetchOptimizedKPIs sample_platform rejecting_rpc_backend sample_now ''E1'' ''2024-01''
            (mounted sample_store)) = Some msg_session_expired
   \<and> data (fetchOptimizedKPIs sample_platform rejecting_rpc_backend sample_now ''E1'' ''2024-01''
            (mounted sample_store)) = None
   \<and> location_href (fetchOptimizedKPIs sample_platform rejecting_rpc_backend sample_now ''E1''
            ''2024-01'' (mounted sample_store)) = Some ''/login''
   \<and> loading (fetchOptimizedKPIs sample_platform rejecting_rpc_backend sample_now ''E1''
            ''2024-01'' (mounted sample_store)) = False
   \<and> filter is_read (calls (fetchOptimizedKPIs sample_platform rejecting_rpc_backend sample_now
            ''E1'' ''2024-01'' (mounted sample_store))) = []"
proof -
  have ids: "''E1'' \<noteq> []" "''2024-01'' \<noteq> []" by simp_all
  have rej: "rpc_validate rejecting_rpc_backend (field session_value ''access_token'')
      = Rejected (ErrorObj ''Failed to fetch'')"
    by (simp add: rejecting_rpc_backend_def)
  have cause: "getItem (mounted sample_store) ''company_session'' = None
       \<or> (\<exists>s session. stored_session sample_platform (mounted sample_store) s session
             \<and> expired sample_platform sample_now (field session ''expires_at''))
       \<or> (\<exists>s session r. stored_session sample_platform (mounted sample_store) s session
             \<and> \<not> expired sample_platform sample_now (field session ''expires_at'')
             \<and> rpc_validate rejecting_rpc_backend (field session ''access_token'') = Rejected r)
       \<or> (\<exists>s session. stored_session sample_platform (mounted sample_store) s session
             \<and> \<not> expired sample_platform sample_now (field session ''expires_at'')
             \<and> rpc_validate rejecting_rpc_backend (field session ''access_token'') = Fulfilled (JArr []))
       \<or> (\<exists>s session row rows. stored_session sample_platform (mounted sample_store) s session
             \<and> \<not> expired sample_platform sample_now (field session ''expires_at'')
             \<and> rpc_validate rejecting_rpc_backend (field session ''access_token'') = Fulfilled (JArr (row # rows))
             \<and> \<not> truthy (opt_field row ''is_valid''))
       \<or> (\<exists>verdict w1. validateSession sample_platform rejecting_rpc_backend sample_now (mounted sample_store\<lparr>loading := True, error := None\<rparr>)
                           = (Some verdict, w1) \<and> \<not> truthy verdict)"
    using stored_sample not_expired_sample rej by blast
  from C6_invalid_session_aborts_fetch [OF ids cause]
  show ?thesis by (simp add: mounted_def)
qed

text \<open>
  C7. With a valid session and the three reads settled: if a read reports an error, the
  fetch fails with a message that names the first such partition (workforce, financial,
  absence, in this order), \<open>data\<close> is left as it was and loading ends. If none reports an
  error, \<open>data\<close> is set, each partition being \<^verbatim>\<open>null\<close> exactly when its read returned no
  row and the transformed row otherwise; and once the activity update has settled with a
  result, the error is \<^verbatim>\<open>null\<close> and loading has ended.
\<close>

theorem C7_read_errors_and_missing_rows:
  assumes ids: "establishmentId \<noteq> []" "period \<noteq> []"
    and vs: "validateSession plat bk now (w\<lparr>loading := True, error := None\<rparr>) = (Some verdict, w1)"
    and ok: "truthy verdict"
    and rd: "read_snapshots bk establishmentId period = Fulfilled (workforceRes, financialRes, absenceRes)"
  shows "(res_error workforceRes = Some m \<longrightarrow>
            error (fetchOptimizedKPIs plat bk now establishmentId period w) = Some (''Workforce data: '' @ m)
          \<and> data (fetchOptimizedKPIs plat bk now establishmentId period w) = data w
          \<and> loading (fetchOptimizedKPIs plat bk now establishmentId period w) = False)
       \<and> (res_error workforceRes = None \<and> res_error financialRes = Some m \<longrightarrow>
            error (fetchOptimizedKPIs plat bk now establishmentId period w) = Some (''Financial data: '' @ m)
          \<and> data (fetchOptimizedKPIs plat bk now establishmentId period w) = data w
          \<and> loading (fetchOptimizedKPIs plat bk now establishmentId period w) = False)
       \<and> (res_error workforceRes = None \<and> res_error financialRes = None
            \<and> res_error absenceRes = Some m \<longrightarrow>
            error (fetchOptimizedKPIs plat bk now establishmentId period w) = Some (''Absence data: '' @ m)
          \<and> data (fetchOptimizedKPIs plat bk now establishmentId period w) = data w
          \<and> loading (fetchOptimizedKPIs plat bk now establishmentId period w) = False)
       \<and> (res_error workforceRes = None \<and> res_error financialRes = None
            \<and> res_error absenceRes = None \<longrightarrow>
            data (fetchOptimizedKPIs plat bk now establishmentId period w)
              = Some \<lparr> workforce = (case res_data workforceRes of None \<Rightarrow> None
                                     | Some d \<Rightarrow> Some (transform_workforce plat d)),
                       financials = (case res_data financialRes of None \<Rightarrow> None
                                     | Some d \<Rightarrow> Some (transform_financials plat d)),
                       absences = (case res_data absenceRes of None \<Rightarrow> None
                                     | Some d \<Rightarrow> Some (transform_absences plat d)) \<rparr>
          \<and> ((\<forall>company_id. \<exists>u. update_activity bk company_id = Fulfilled u) \<longrightarrow>
                error (fetchOptimizedKPIs plat bk now establishmentId period w) = None
              \<and> loading (fetchOptimizedKPIs plat bk now establishmentId period w) = False))"
proof -
  note a = ids vs ok rd
  show ?thesis
    using fetch_first_error [OF a, of "''Workforce data: '' @ m"]
      fetch_first_error [OF a, of "''Financial data: '' @ m"]
      fetch_first_error [OF a, of "''Absence data: '' @ m"]
      fetch_success_data [OF a] fetch_success_settled [OF a]
    by (simp add: transformedData_def map_option_case)
qed

theorem C7_read_errors_and_missing_rows_witness:
  "error (fetchOptimizedKPIs sample_platform workforce_error_backend sample_now ''E1'' ''2024-01''
            (mounted sample_store)) = Some ''Workforce data: connection refused''
   \<and> data (fetchOptimizedKPIs sample_platform workforce_error_backend sample_now ''E1''
            ''2024-01'' (mounted sample_store)) = None
   \<and> data (fetchOptimizedKPIs sample_platform sample_backend sample_now ''E1'' ''2024-01''
            (mounted sample_store))
       = Some \<lparr> workforce = Some (transform_workforce sample_platform sample_workforce_row),
                financials = None,
                absences = Some (transform_absences sample_platform sample_absence_row) \<rparr>
   \<and> error (fetchOptimizedKPIs sample_platform sample_backend sample_now ''E1'' ''2024-01''
            (mounted sample_store)) = None"
proof -
  have ids: "''E1'' \<noteq> []" "''2024-01'' \<noteq> []" by simp_all
  have t: "truthy (JBool True)" by simp
  have rd1: "read_snapshots workforce_error_backend ''E1'' ''2024-01''
      = Fulfilled (QueryResult None (Some ''connection refused''), QueryResult None None,
                   QueryResult (Some sample_absence_row) None)"
    by (simp add: workforce_error_backend_def)
  have rd2: "read_snapshots sample_backend ''E1'' ''2024-01''
      = Fulfilled (QueryResult (Some sample_workforce_row) None, QueryResult None None,
                   QueryResult (Some sample_absence_row) None)"
    by (simp add: sample_backend_def)
  have upd: "\<forall>company_id. \<exists>u. update_activity sample_backend company_id = Fulfilled u"
    by (simp add: sample_backend_def)
  from C7_read_errors_and_missing_rows
         [OF ids sample_validate [OF sample_rpc(2)] t rd1, of "''connection refused''"]
       C7_read_errors_and_missing_rows
         [OF ids sample_validate [OF sample_rpc(1)] t rd2, of "''x''"] upd
  show ?thesis by (simp add: mounted_def)
qed

lemma coerced_number_or_zero: "coerced v (number_or_zero plat v)"
proof -
  have "number_or_zero plat (JNum (Fin r)) = Fin r" for r
    by (simp add: number_or_zero_def)
  then show ?thesis
    by (auto simp: coerced_def number_or_zero_simps number_or_zero_strings
        split: jsv.splits jsnum.splits)
qed

text \<open>
  C8. In the transform, every field of the three normalized records is the coercion of its
  own column of the row: \<^verbatim>\<open>null\<close>, \<^verbatim>\<open>undefined\<close>, the string \<^verbatim>\<open>abc\<close> and \<open>NaN\<close> in
  a column give \<open>0\<close> in its field, the string \<^verbatim>\<open>42\<close> gives \<open>42\<close>, and a finite number
  is kept, whatever the other columns hold. For entity \<^verbatim>\<open>E1\<close> and period
  \<^verbatim>\<open>2024-01\<close>, with a workforce row whose \<^verbatim>\<open>etp_fin_mois\<close> is \<open>12.5\<close>, no payroll row
  and an absence row whose \<^verbatim>\<open>taux_absenteisme\<close> is \<^verbatim>\<open>null\<close>, the fetch (session valid,
  activity update settled) yields the transformed workforce row with \<open>etpTotal = 12.5\<close>,
  \<open>financials = null\<close>, the transformed absence row with \<open>tauxAbsenteisme = 0\<close>, no
  error, and \<open>isValid\<close>.
\<close>

theorem C8_coercion_and_scenario:
  "(coerced (etp_fin_mois wd) (etpTotal (transform_workforce plat wd))
     \<and> coerced (effectif_fin_mois wd) (headcountActif (transform_workforce plat wd))
     \<and> coerced (nb_entrees wd) (nbEntrees (transform_workforce plat wd))
     \<and> coerced (nb_sorties wd) (nbSorties (transform_workforce plat wd))
     \<and> coerced (taux_turnover wd) (tauxTurnover (transform_workforce plat wd))
     \<and> coerced (pct_cdi wd) (pctCDI (transform_workforce plat wd))
     \<and> coerced (age_moyen wd) (ageMoyen (transform_workforce plat wd))
     \<and> coerced (anciennete_moyenne_mois wd) (ancienneteMoyenne (transform_workforce plat wd))
     \<and> coerced (pct_hommes wd) (pctHommes (transform_workforce plat wd))
     \<and> coerced (pct_femmes wd) (pctFemmes (transform_workforce plat wd)))
   \<and> (coerced (masse_salariale_brute fd) (masseBrute (transform_financials plat fd))
     \<and> coerced (cout_total_employeur fd) (coutTotal (transform_financials plat fd))
     \<and> coerced (salaire_base_moyen fd) (salaireMoyen (transform_financials plat fd))
     \<and> coerced (cout_moyen_par_fte fd) (coutMoyenFTE (transform_financials plat fd))
     \<and> coerced (part_variable fd) (partVariable (transform_financials plat fd))
     \<and> coerced (taux_charges fd) (tauxCharges (transform_financials plat fd)))
   \<and> (coerced (taux_absenteisme ad) (tauxAbsenteisme (transform_absences plat ad))
     \<and> coerced (nb_jours_absence ad) (nbJoursAbsence (transform_absences plat ad))
     \<and> coerced (nb_absences_total ad) (nbAbsencesTotal (transform_absences plat ad))
     \<and> coerced (duree_moyenne_absence ad) (dureeMoyenne (transform_absences plat ad))
     \<and> coerced (nb_salaries_absents ad) (nbSalariesAbsents (transform_absences plat ad))
     \<and> coerced (nb_jours_maladie ad) (nbJoursMaladie (transform_absences plat ad)))
   \<and> (\<forall>v \<in> set [JNull, JUndefined, JStr ''abc'', JNum NaN]. number_or_zero plat v = Fin 0)
   \<and> number_or_zero plat (JStr ''42'') = Fin 42
   \<and> (validateSession plat bk now (w\<lparr>loading := True, error := None\<rparr>) = (Some verdict, w1)
        \<and> truthy verdict
        \<and> read_snapshots bk ''E1'' ''2024-01''
             = Fulfilled (QueryResult (Some wrow) None, QueryResult None None,
                          QueryResult (Some arow) None)
        \<and> etp_fin_mois wrow = JNum (Fin (25 / 2))
        \<and> taux_absenteisme arow = JNull
        \<and> (\<forall>company_id. \<exists>u. update_activity bk company_id = Fulfilled u)
      \<longrightarrow> data (fetchOptimizedKPIs plat bk now ''E1'' ''2024-01'' w)
            = Some \<lparr> workforce = Some (transform_workforce plat wrow), financials = None,
                     absences = Some (transform_absences plat arow) \<rparr>
        \<and> etpTotal (transform_workforce plat wrow) = Fin (25 / 2)
        \<and> tauxAbsenteisme (transform_absences plat arow) = Fin 0
        \<and> error (fetchOptimizedKPIs plat bk now ''E1'' ''2024-01'' w) = None
        \<and> isValid (fetchOptimizedKPIs plat bk now ''E1'' ''2024-01'' w))"
proof -
  have wf: "coerced (etp_fin_mois wd) (etpTotal (transform_workforce plat wd))
     \<and> coerced (effectif_fin_mois wd) (headcountActif (transform_workforce plat wd))
     \<and> coerced (nb_entrees wd) (nbEntrees (transform_workforce plat wd))
     \<and> coerced (nb_sorties wd) (nbSorties (transform_workforce plat wd))
     \<and> coerced (taux_turnover wd) (tauxTurnover (transform_workforce plat wd))
     \<and> coerced (pct_cdi wd) (pctCDI (transform_workforce plat wd))
     \<and> coerced (age_moyen wd) (ageMoyen (transform_workforce plat wd))
     \<and> coerced (anciennete_moyenne_mois wd) (ancienneteMoyenne (transform_workforce plat wd))
     \<and> coerced (pct_hommes wd) (pctHommes (transform_workforce plat wd))
     \<and> coerced (pct_femmes wd) (pctFemmes (transform_workforce plat wd))"
    by (simp add: transform_workforce_def coerced_number_or_zero)
  have fi: "coerced (masse_salariale_brute fd) (masseBrute (transform_financials plat fd))
     \<and> coerced (cout_total_employeur fd) (coutTotal (transform_financials plat fd))
     \<and> coerced (salaire_base_moyen fd) (salaireMoyen (transform_financials plat fd))
     \<and> coerced (cout_moyen_par_fte fd) (coutMoyenFTE (transform_financials plat fd))
     \<and> coerced (part_variable fd) (partVariable (transform_financials plat fd))
     \<and> coerced (taux_charges fd) (tauxCharges (transform_financials plat fd))"
    by (simp add: transform_financials_def coerced_number_or_zero)
  have ab: "coerced (taux_absenteisme ad) (tauxAbsenteisme (transform_absences plat ad))
     \<and> coerced (nb_jours_absence ad) (nbJoursAbsence (transform_absences plat ad))
     \<and> coerced (nb_absences_total ad) (nbAbsencesTotal (transform_absences plat ad))
     \<and> coerced (duree_moyenne_absence ad) (dureeMoyenne (transform_absences plat ad))
     \<and> coerced (nb_salaries_absents ad) (nbSalariesAbsents (transform_absences plat ad))
     \<and> coerced (nb_jours_maladie ad) (nbJoursMaladie (transform_absences plat ad))"
    by (simp add: transform_absences_def coerced_number_or_zero)
  have coerce: "\<forall>v \<in> set [JNull, JUndefined, JStr ''abc'', JNum NaN]. number_or_zero plat v = Fin 0"
    by (simp add: number_or_zero_simps number_or_zero_strings)
  have scenario: "data (fetchOptimizedKPIs plat bk now ''E1'' ''2024-01'' w)
            = Some \<lparr> workforce = Some (transform_workforce plat wrow), financials = None,
                     absences = Some (transform_absences plat arow) \<rparr>
        \<and> etpTotal (transform_workforce plat wrow) = Fin (25 / 2)
        \<and> tauxAbsenteisme (transform_absences plat arow) = Fin 0
        \<and> error (fetchOptimizedKPIs plat bk now ''E1'' ''2024-01'' w) = None
        \<and> isValid (fetchOptimizedKPIs plat bk now ''E1'' ''2024-01'' w)"
    if vs: "validateSession plat bk now (w\<lparr>loading := True, error := None\<rparr>) = (Some verdict, w1)"
      and ok: "truthy verdict"
      and rd: "read_snapshots bk ''E1'' ''2024-01''
             = Fulfilled (QueryResult (Some wrow) None, QueryResult None None,
                          QueryResult (Some arow) None)"
      and etp: "etp_fin_mois wrow = JNum (Fin (25 / 2))"
      and taux: "taux_absenteisme arow = JNull"
      and upd: "\<forall>company_id. \<exists>u. update_activity bk company_id = Fulfilled u"
  proof -
    have ids: "''E1'' \<noteq> []" "''2024-01'' \<noteq> []" by simp_all
    have d: "data (fetchOptimizedKPIs plat bk now ''E1'' ''2024-01'' w)
            = Some \<lparr> workforce = Some (transform_workforce plat wrow), financials = None,
                     absences = Some (transform_absences plat arow) \<rparr>"
      using fetch_success_data [OF ids vs ok rd] by (simp add: transformedData_def)
    have e: "error (fetchOptimizedKPIs plat bk now ''E1'' ''2024-01'' w) = None"
      using fetch_success_settled [OF ids vs ok rd _ _ _ upd] by simp
    show ?thesis
      by (simp add: d e isValid_def transform_workforce_def transform_absences_def etp taux
          number_or_zero_simps)
  qed
  from wf fi ab coerce scenario show ?thesis
    by (simp only: number_or_zero_strings) blast
qed

theorem C8_coercion_and_scenario_witness:
  "data (fetchOptimizedKPIs sample_platform sample_backend sample_now ''E1'' ''2024-01''
            (mounted sample_store))
     = Some \<lparr> workforce = Some
                \<lparr> etpTotal = Fin (25 / 2), headcountActif = Fin 14, nbEntrees = Fin 1,
                  nbSorties = Fin 0, tauxTurnover = Fin 0, pctCDI = Fin 42, ageMoyen = Fin 0,
                  ancienneteMoyenne = Fin 0, pctHommes = Fin 0, pctFemmes = Fin 50 \<rparr>,
              financials = None,
              absences = Some
                \<lparr> tauxAbsenteisme = Fin 0, nbJoursAbsence = Fin 3, nbAbsencesTotal = Fin 2,
                  dureeMoyenne = Fin (3 / 2), nbSalariesAbsents = Fin 2,
                  nbJoursMaladie = Fin 1 \<rparr> \<rparr>
   \<and> coerced (JStr ''42'') (pctCDI (transform_workforce sample_platform sample_workforce_row))
   \<and> coerced (JStr ''abc'')
        (tauxTurnover (transform_workforce sample_platform sample_workforce_row))
   \<and> error (fetchOptimizedKPIs sample_platform sample_backend sample_now ''E1'' ''2024-01''
            (mounted sample_store)) = None
   \<and> isValid (fetchOptimizedKPIs sample_platform sample_backend sample_now ''E1'' ''2024-01''
            (mounted sample_store))
   \<and> number_or_zero sample_platform (JStr ''abc'') = Fin 0"
proof -
  have rd: "read_snapshots sample_backend ''E1'' ''2024-01''
      = Fulfilled (QueryResult (Some sample_workforce_row) None, QueryResult None None,
                   QueryResult (Some sample_absence_row) None)"
    by (simp add: sample_backend_def)
  have upd: "\<forall>company_id. \<exists>u. update_activity sample_backend company_id = Fulfilled u"
    by (simp add: sample_backend_def)
  have rows: "etp_fin_mois sample_workforce_row = JNum (Fin (25 / 2))"
    "taux_absenteisme sample_absence_row = JNull"
    "pct_cdi sample_workforce_row = JStr ''42''"
    "taux_turnover sample_workforce_row = JStr ''abc''"
    by (simp_all add: sample_workforce_row_def sample_absence_row_def)
  have wk: "transform_workforce sample_platform sample_workforce_row
      = \<lparr> etpTotal = Fin (25 / 2), headcountActif = Fin 14, nbEntrees = Fin 1,
          nbSorties = Fin 0, tauxTurnover = Fin 0, pctCDI = Fin 42, ageMoyen = Fin 0,
          ancienneteMoyenne = Fin 0, pctHommes = Fin 0, pctFemmes = Fin 50 \<rparr>"
    by (simp add: transform_workforce_def sample_workforce_row_def number_or_zero_simps
        number_or_zero_strings)
  have ab: "transform_absences sample_platform sample_absence_row
      = \<lparr> tauxAbsenteisme = Fin 0, nbJoursAbsence = Fin 3, nbAbsencesTotal = Fin 2,
          dureeMoyenne = Fin (3 / 2), nbSalariesAbsents = Fin 2, nbJoursMaladie = Fin 1 \<rparr>"
    by (simp add: transform_absences_def sample_absence_row_def number_or_zero_simps)
  from C8_coercion_and_scenario [where plat = sample_platform and bk = sample_backend
         and now = sample_now and w = "mounted sample_store" and verdict = "JBool True"
         and ?w1.0 = "issue [RpcValidate (JStr ''t1'')]
                        (mounted sample_store\<lparr>loading := True, error := None\<rparr>)"
         and wrow = sample_workforce_row and arow = sample_absence_row
         and wd = sample_workforce_row and fd = sample_financial_row
         and ad = sample_absence_row]
       sample_validate [OF sample_rpc(1)] rd upd rows(1,2)
  have "data (fetchOptimizedKPIs sample_platform sample_backend sample_now ''E1'' ''2024-01''
            (mounted sample_store))
      = Some \<lparr> workforce = Some (transform_workforce sample_platform sample_workforce_row),
               financials = None,
               absences = Some (transform_absences sample_platform sample_absence_row) \<rparr>
    \<and> coerced (pct_cdi sample_workforce_row)
         (pctCDI (transform_workforce sample_platform sample_workforce_row))
    \<and> coerced (taux_turnover sample_workforce_row)
         (tauxTurnover (transform_workforce sample_platform sample_workforce_row))
    \<and> error (fetchOptimizedKPIs sample_platform sample_backend sample_now ''E1'' ''2024-01''
            (mounted sample_store)) = None
    \<and> isValid (fetchOptimizedKPIs sample_platform sample_backend sample_now ''E1'' ''2024-01''
            (mounted sample_store))
    \<and> number_or_zero sample_platform (JStr ''abc'') = Fin 0"
    by simp
  then show ?thesis by (simp add: wk ab rows(3,4))
qed

text \<open>
  C9, as the code has it. The activity update is awaited as the last step of a successful
  fetch: \<open>data\<close> is set before it, and loading ends only when it settles; while it has
  not settled, loading stays true. The result it settles with is ignored: replacing it by
  any other result, success or error, leaves the whole state unchanged, with no error and
  loading ended.
\<close>

theorem C9_update_awaited_result_ignored:
  assumes ids: "establishmentId \<noteq> []" "period \<noteq> []"
    and vs: "validateSession plat bk now (w\<lparr>loading := True, error := None\<rparr>) = (Some verdict, w1)"
    and ok: "truthy verdict"
    and rd: "read_snapshots bk establishmentId period = Fulfilled (workforceRes, financialRes, absenceRes)"
    and er: "res_error workforceRes = None" "res_error financialRes = None" "res_error absenceRes = None"
  shows "((\<forall>company_id. \<exists>u. update_activity bk company_id = Fulfilled u) \<longrightarrow>
            fetchOptimizedKPIs plat (bk\<lparr>update_activity := (\<lambda>company_id. Fulfilled u')\<rparr>) now
                establishmentId period w
              = fetchOptimizedKPIs plat bk now establishmentId period w
          \<and> data (fetchOptimizedKPIs plat bk now establishmentId period w)
              = Some (transformedData plat workforceRes financialRes absenceRes)
          \<and> error (fetchOptimizedKPIs plat bk now establishmentId period w) = None
          \<and> loading (fetchOptimizedKPIs plat bk now establishmentId period w) = False)
       \<and> ((\<forall>company_id. update_activity bk company_id = Pending)
            \<and> stored_session plat w s session \<and> truthy (field session ''company_id'') \<longrightarrow>
            data (fetchOptimizedKPIs plat bk now establishmentId period w)
              = Some (transformedData plat workforceRes financialRes absenceRes)
          \<and> loading (fetchOptimizedKPIs plat bk now establishmentId period w) = True)"
proof -
  from validateSession_accepts_stored [OF vs ok] obtain s0 session0 where
    st: "stored_session plat (w\<lparr>loading := True, error := None\<rparr>) s0 session0"
    and w1: "w1 = issue [RpcValidate (field session0 ''access_token'')]
                    (w\<lparr>loading := True, error := None\<rparr>)"
    by blast
  have st2: "stored_session plat (issue cs w1\<lparr>data := d\<rparr>) s0 session0" for cs d
    using st by (simp add: w1)
  let ?bk' = "bk\<lparr>update_activity := (\<lambda>company_id. Fulfilled u')\<rparr>"
  have vs': "validateSession plat ?bk' now (w\<lparr>loading := True, error := None\<rparr>) = (Some verdict, w1)"
    using vs by simp
  have rd': "read_snapshots ?bk' establishmentId period = Fulfilled (workforceRes, financialRes, absenceRes)"
    using rd by simp
  have same: "fetchOptimizedKPIs plat ?bk' now establishmentId period w
              = fetchOptimizedKPIs plat bk now establishmentId period w"
    if upd: "\<forall>company_id. \<exists>u. update_activity bk company_id = Fulfilled u"
  proof -
    from upd obtain u where u: "update_activity bk (field session0 ''company_id'') = Fulfilled u"
      by blast
    show ?thesis
      using er
      by (simp add: fetch_accepted [OF ids vs ok rd] fetch_accepted [OF ids vs' ok rd'] Let_def
          update_last_activity_stored [OF st2] u)
  qed
  have hang: "loading (fetchOptimizedKPIs plat bk now establishmentId period w) = True"
    if p: "\<forall>company_id. update_activity bk company_id = Pending"
      and s: "stored_session plat w s session" and c: "truthy (field session ''company_id'')"
  proof -
    have "session0 = session" using st s by (simp add: stored_session_def)
    with c have c0: "truthy (field session0 ''company_id'')" by simp
    have l1: "loading w1 = True" by (simp add: w1)
    show ?thesis
      using er c0 p
      by (simp add: fetch_accepted [OF ids vs ok rd] Let_def
          update_last_activity_stored [OF st2] l1)
  qed
  show ?thesis
    using same hang fetch_success_data [OF ids vs ok rd er]
      fetch_success_settled [OF ids vs ok rd er]
    by simp
qed

theorem C9_update_awaited_result_ignored_witness:
  "fetchOptimizedKPIs sample_platform failing_update_backend sample_now ''E1'' ''2024-01''
       (mounted sample_store)
     = fetchOptimizedKPIs sample_platform sample_backend sample_now ''E1'' ''2024-01''
       (mounted sample_store)
   \<and> loading (fetchOptimizedKPIs sample_platform sample_backend sample_now ''E1'' ''2024-01''
       (mounted sample_store)) = False
   \<and> error (fetchOptimizedKPIs sample_platform sample_backend sample_now ''E1'' ''2024-01''
       (mounted sample_store)) = None
   \<and> loading (fetchOptimizedKPIs sample_platform hanging_update_backend sample_now ''E1''
       ''2024-01'' (mounted sample_store)) = True
   \<and> isValid (fetchOptimizedKPIs sample_platform hanging_update_backend sample_now ''E1''
       ''2024-01'' (mounted sample_store))"
proof -
  have ids: "''E1'' \<noteq> []" "''2024-01'' \<noteq> []" by simp_all
  have t: "truthy (JBool True)" by simp
  have upd: "\<forall>company_id. \<exists>u. update_activity sample_backend company_id = Fulfilled u"
    by (simp add: sample_backend_def)
  have fb: "sample_backend\<lparr>update_activity := (\<lambda>company_id. Fulfilled (Some ''permission denied''))\<rparr>
      = failing_update_backend"
    by (simp add: failing_update_backend_def)
  have hang: "\<forall>company_id. update_activity hanging_update_backend company_id = Pending"
    by (simp add: hanging_update_backend_def)
  have cid: "truthy (field session_value ''company_id'')"
    by (simp add: session_value_fields)
  from C9_update_awaited_result_ignored
         [OF ids sample_validate [OF sample_rpc(1)] t sample_reads(1),
          of "Some ''permission denied''" session_json session_value]
       C9_update_awaited_result_ignored
         [OF ids sample_validate [OF sample_rpc(4)] t sample_reads(2),
          of "None" session_json session_value]
       upd fb hang cid stored_sample
  show ?thesis by (simp add: isValid_def)
qed

text \<open>
  The claim as stated (the update is not awaited, and no failure of it changes the
  outcome) fails: with an update that never settles, loading stays true, and with an
  update whose promise rejects, the fetch reports that rejection as its error.
\<close>

theorem C9_update_is_awaited_counterexample:
  "loading (fetchOptimizedKPIs sample_platform sample_backend sample_now ''E1'' ''2024-01''
       (mounted sample_store)) = False
   \<and> loading (fetchOptimizedKPIs sample_platform hanging_update_backend sample_now ''E1''
       ''2024-01'' (mounted sample_store)) = True
   \<and> error (fetchOptimizedKPIs sample_platform sample_backend sample_now ''E1'' ''2024-01''
       (mounted sample_store)) = None
   \<and> error (fetchOptimizedKPIs sample_platform rejecting_update_backend sample_now ''E1''
       ''2024-01'' (mounted sample_store)) = Some ''Failed to fetch''"
proof -
  have ids: "''E1'' \<noteq> []" "''2024-01'' \<noteq> []" by simp_all
  have t: "truthy (JBool True)" by simp
  have st: "stored_session sample_platform
      (issue cs (issue cs' (mounted sample_store\<lparr>loading := True, error := None\<rparr>))\<lparr>data := d\<rparr>)
      session_json session_value" for cs cs' d
    using stored_sample by simp
  have m: "loading (mounted sample_store) = True" "error (mounted sample_store) = None"
    by (simp_all add: mounted_def)
  have u: "update_activity sample_backend (JStr ''c1'') = Fulfilled None"
    "update_activity hanging_update_backend (JStr ''c1'') = Pending"
    "update_activity rejecting_update_backend (JStr ''c1'') = Rejected (ErrorObj ''Failed to fetch'')"
    by (simp_all add: sample_backend_def hanging_update_backend_def rejecting_update_backend_def)
  show ?thesis
    by (simp add: fetch_accepted [OF ids sample_validate [OF sample_rpc(1)] t sample_reads(1)]
        fetch_accepted [OF ids sample_validate [OF sample_rpc(4)] t sample_reads(2)]
        fetch_accepted [OF ids sample_validate [OF sample_rpc(5)] t sample_reads(3)]
        Let_def update_last_activity_stored [OF st] session_value_fields u m)
qed

text \<open>
  C10. A session whose \<^verbatim>\<open>expires_at\<close> is absent or does not give a valid date is not
  expired, whatever the clock: the hook goes on to the validation call without clearing
  anything, the admin gate lets the request pass, and the answer of the company gate does
  not depend on the clock. In particular a cookie that decodes to the empty object passes
  the admin gate.
\<close>

theorem C10_unparseable_expiry_is_not_expired:
  "(map_of kvs ''expires_at'' = None \<longrightarrow> newDate plat (field (JObj kvs) ''expires_at'') = None)
   \<and> (newDate plat (field session ''expires_at'') = None \<longrightarrow>
        \<not> expired plat now (field session ''expires_at'')
      \<and> (stored_session plat w s session \<longrightarrow>
            snd (validateSession plat bk now w)
              = issue [RpcValidate (field session ''access_token'')] w)
      \<and> (decode_session plat v = Inr session \<and> \<not> nullish session \<longrightarrow>
            admin_gate plat now (Some v) = Inr (Next [])
          \<and> company_gate plat now (Some v) = company_gate plat now' (Some v)))
   \<and> (decode_session plat v0 = Inr (JObj []) \<longrightarrow> admin_gate plat now (Some v0) = Inr (Next []))"
proof -
  have absent: "newDate plat (field (JObj kvs) ''expires_at'') = None"
    if "map_of kvs ''expires_at'' = None"
    using that by simp
  have ne: "\<not> expired plat t (field session ''expires_at'')"
    if "newDate plat (field session ''expires_at'') = None" for t
    using that by (simp add: expired_def)
  have hook: "snd (validateSession plat bk now w)
              = issue [RpcValidate (field session ''access_token'')] w"
    if "newDate plat (field session ''expires_at'') = None" "stored_session plat w s session"
    using that(2) validateSession_rpc [of w s plat session now bk] ne [OF that(1)]
    by (simp add: stored_session_def split: promise.splits)
  have gates: "admin_gate plat now (Some v) = Inr (Next [])
          \<and> company_gate plat now (Some v) = company_gate plat now' (Some v)"
    if "newDate plat (field session ''expires_at'') = None"
      "decode_session plat v = Inr session" "\<not> nullish session"
    using gates_not_nullish [OF that(2,3)] ne [OF that(1)] by simp
  have empty: "admin_gate plat now (Some v0) = Inr (Next [])"
    if "decode_session plat v0 = Inr (JObj [])"
    using gates_not_nullish(1) [OF that, of now] by (simp add: expired_def)
  show ?thesis
    using absent ne hook gates empty by blast
qed

theorem C10_unparseable_expiry_is_not_expired_witness:
  "newDate sample_platform (field (JObj []) ''expires_at'') = None
   \<and> \<not> expired sample_platform sample_now (field (JObj []) ''expires_at'')
   \<and> decode_session sample_platform ''e30='' = Inr (JObj [])
   \<and> admin_gate sample_platform sample_now (Some ''e30='') = Inr (Next [])
   \<and> snd (validateSession sample_platform sample_backend sample_now
            (mounted [(''company_session'', ''{}'')]))
       = issue [RpcValidate JUndefined] (mounted [(''company_session'', ''{}'')])"
proof -
  have dec: "decode_session sample_platform ''e30='' = Inr (JObj [])"
    by (simp add: decode_session_def sample_platform_def session_cookie_def expired_cookie_def
        session_json_def expired_json_def)
  have st: "stored_session sample_platform (mounted [(''company_session'', ''{}'')]) ''{}'' (JObj [])"
    by (simp add: stored_session_def getItem_def mounted_def sample_platform_def
        session_json_def expired_json_def)
  from C10_unparseable_expiry_is_not_expired
         [of "[]" sample_platform "JObj []" sample_now "mounted [(''company_session'', ''{}'')]"
             "''{}''" sample_backend "''e30=''" sample_now "''e30=''"]
       dec st
  show ?thesis by simp
qed

end
